theory Spec2Isabelle
  imports Main "HOL-Library.Sublist"
begin

section \<open>Errors\<close>

text \<open>
  Go's \<^verbatim>\<open>error\<close> values as the executor builds and inspects them.
  \<^item> \<open>ErrNotFound\<close>, \<open>ErrMultipleFound\<close>: the sentinel errors of the executor package,
    compared by identity through \<^verbatim>\<open>errors.Is\<close>.
  \<^item> \<open>ErrWaitTimeout\<close>: the timeout error of \<^verbatim>\<open>wait.Poll\<close>.
  \<^item> \<open>ClientError nf msg\<close>: an error coming out of a capability call (compute or
    network client); \<open>nf\<close> is its error kind, true for "not found".
  \<^item> \<open>Errorf fmt args w v\<close>: the value of \<^verbatim>\<open>fmt.Errorf(fmt, ...)\<close>: the format string,
    its string operands, the operand of \<^verbatim>\<open>%w\<close> (the error it wraps, seen by
    \<^verbatim>\<open>errors.Is\<close>) and the error operand of \<^verbatim>\<open>%v\<close>/\<^verbatim>\<open>%s\<close> (printed into the
    message, not part of the wrap chain).
\<close>

datatype error =
    ErrNotFound
  | ErrMultipleFound
  | ErrWaitTimeout
  | ClientError bool string
  | Errorf string "string list" "error option" "error option"

text \<open>\<^verbatim>\<open>errors.Is(err, target)\<close>: \<open>err\<close> or an error on its \<^verbatim>\<open>%w\<close> chain is \<open>target\<close>.\<close>

fun errors_Is :: "error \<Rightarrow> error \<Rightarrow> bool" where
  "errors_Is (Errorf f a (Some w) v) target =
     (Errorf f a (Some w) v = target \<or> errors_Is w target)"
| "errors_Is err target = (err = target)"

text \<open>
  Modelled from the spec: \<^verbatim>\<open>client.IsNotFoundError\<close> is not among the source files; the
  spec gives both capabilities "a distinguishable not-found error kind".
\<close>

fun IsNotFoundError :: "error \<Rightarrow> bool" where
  "IsNotFoundError (ClientError nf msg) = nf"
| "IsNotFoundError err = False"

text \<open>
  \<open>mentions err e\<close>: the error \<open>e\<close> is \<open>err\<close> itself or an operand of it, wrapped or
  printed, at any depth. This is what a reader of the message of \<open>err\<close> can see.
\<close>

fun mentions :: "error \<Rightarrow> error \<Rightarrow> bool" where
  "mentions (Errorf f a (Some w) (Some v)) e =
     (Errorf f a (Some w) (Some v) = e \<or> mentions w e \<or> mentions v e)"
| "mentions (Errorf f a (Some w) None) e = (Errorf f a (Some w) None = e \<or> mentions w e)"
| "mentions (Errorf f a None (Some v)) e = (Errorf f a None (Some v) = e \<or> mentions v e)"
| "mentions err e = (err = e)"

section \<open>Helpers of the executor package\<close>

text \<open>
  Modelled from the spec: \<^verbatim>\<open>isEmptyString\<close> is not among the source files. It takes a
  \<^verbatim>\<open>*string\<close>; a nil pointer and the empty string are "not configured".
\<close>

fun isEmptyString :: "string option \<Rightarrow> bool" where
  "isEmptyString None = True"
| "isEmptyString (Some s) = (s = [])"

text \<open>\<^verbatim>\<open>pointer.StringPtr(s)\<close> is the address of a copy of \<open>s\<close>, never nil.\<close>

definition StringPtr :: "string \<Rightarrow> string option" where
  "StringPtr s = Some s"

text \<open>
  Modelled from the spec: \<^verbatim>\<open>strSliceContains\<close> is not among the source files; it is
  membership of a status in the target or pending set.
\<close>

definition strSliceContains :: "string list \<Rightarrow> string \<Rightarrow> bool" where
  "strSliceContains haystack needle = (needle \<in> set haystack)"

text \<open>\<^verbatim>\<open>strings.Contains(s, substr)\<close>: \<open>substr\<close> occurs in \<open>s\<close> as a contiguous run.\<close>

definition strings_Contains :: "string \<Rightarrow> string \<Rightarrow> bool" where
  "strings_Contains s substr = sublist substr s"

text \<open>
  Modelled from the spec: the status constants of the client package are not among the
  source files; the spec names the statuses BUILD, ACTIVE, ERROR and DELETED.
\<close>

definition ServerStatusBuild :: string where "ServerStatusBuild = ''BUILD''"
definition ServerStatusActive :: string where "ServerStatusActive = ''ACTIVE''"
definition ServerStatusError :: string where "ServerStatusError = ''ERROR''"
definition ServerStatusDeleted :: string where "ServerStatusDeleted = ''DELETED''"

text \<open>
  The two constants of package cloudprovider, \<^verbatim>\<open>ServerTagClusterPrefix\<close> and
  \<^verbatim>\<open>ServerTagRolePrefix\<close>, are not among the source files: they are parameters.
\<close>

record cloudprovider =
  ServerTagClusterPrefix :: string
  ServerTagRolePrefix :: string

section \<open>Data model\<close>

text \<open>\<^verbatim>\<open>servers.Server\<close>, the fields the executor reads.\<close>

record Server =
  srv_ID :: string
  srv_Name :: string
  srv_Status :: string
  srv_Metadata :: "string \<rightharpoonup> string"
  srv_Fault :: string

text \<open>\<^verbatim>\<open>ports.Port\<close>; an address pair is kept as its \<^verbatim>\<open>IPAddress\<close>.\<close>

record Port =
  port_ID :: string
  port_NetworkID :: string
  port_AllowedAddressPairs :: "string list"

text \<open>\<^verbatim>\<open>servers.Network\<close>: one attachment of a create request.\<close>

record ServerNetwork =
  UUID :: string
  Port :: string

text \<open>\<^verbatim>\<open>ports.CreateOpts\<close> as \<^verbatim>\<open>computeServerNetworks\<close> fills it.\<close>

record PortCreateOpts =
  pc_Name :: string
  pc_NetworkID :: string
  pc_FixedIPs :: "string list"
  pc_AllowedAddressPairs :: "string list"
  pc_SecurityGroups :: "string list"

text \<open>\<^verbatim>\<open>bootfromvolume.BlockDevice\<close>.\<close>

record BlockDevice =
  bd_UUID :: string
  bd_VolumeSize :: int
  bd_BootIndex :: int
  bd_DeleteOnTermination :: bool
  bd_SourceType :: string
  bd_DestinationType :: string

text \<open>
  The create request after all its layers: \<^verbatim>\<open>servers.CreateOpts\<close>, the key name of
  \<^verbatim>\<open>keypairs.CreateOptsExt\<close>, the group of \<^verbatim>\<open>schedulerhints.CreateOptsExt\<close> (when that
  layer is applied) and the block devices of \<^verbatim>\<open>bootfromvolume.CreateOptsExt\<close> (empty
  when that layer is not applied).
\<close>

record CreateOpts =
  co_Name :: string
  co_FlavorRef :: string
  co_ImageRef :: string
  co_Networks :: "ServerNetwork list"
  co_SecurityGroups :: "string list"
  co_Metadata :: "(string \<times> string) list"
  co_UserData :: string
  co_AvailabilityZone :: string
  co_ConfigDrive :: "bool option"
  co_KeyName :: string
  co_SchedulerHintsGroup :: "string option"
  co_BlockDevice :: "BlockDevice list"

text \<open>An entry of \<^verbatim>\<open>Spec.Networks\<close>.\<close>

record OpenStackNetwork =
  net_Id :: string
  net_Name :: string
  net_PodNetwork :: bool

text \<open>
  \<^verbatim>\<open>api.MachineProviderConfig\<close> and its \<^verbatim>\<open>Spec\<close>. \<open>Tags\<close> is a Go map that the executor
  ranges over; Go visits the entries in an order it does not specify, so \<open>Tags\<close> is the
  list of the entries in the order of the visit, and every theorem holds for every order.
\<close>

record MachineProviderConfigSpec =
  Region :: string
  NetworkID :: string
  SubnetID :: "string option"
  Networks :: "OpenStackNetwork list"
  SecurityGroups :: "string list"
  PodNetworkCidr :: string
  Tags :: "(string \<times> string) list"
  ImageID :: string
  ImageName :: string
  FlavorName :: string
  KeyName :: string
  AvailabilityZone :: string
  RootDiskSize :: int
  UseConfigDrive :: "bool option"
  ServerGroupID :: "string option"

record MachineProviderConfig =
  Spec :: MachineProviderConfigSpec

section \<open>The capabilities\<close>

text \<open>
  The executor talks to OpenStack through two interfaces, \<^verbatim>\<open>client.Compute\<close> and
  \<^verbatim>\<open>client.Network\<close>, whose implementations are outside the executor. The state of a run
  is the list of the capability calls made so far, the latest first. A capability answers
  a call as a function of that history and of the call's arguments, so the answer to the
  same query may change from one call to the next (a server goes from BUILD to ACTIVE, a
  deleted server is no longer found), and a theorem about all values of these records is
  a theorem about every provider.
\<close>

datatype call =
    CreateServer_call CreateOpts
  | BootFromVolume_call CreateOpts
  | GetServer_call string
  | ListServers_call string
  | DeleteServer_call string
  | ImageIDFromName_call string
  | FlavorIDFromName_call string
  | GetSubnet_call string
  | CreatePort_call PortCreateOpts
  | UpdatePort_call string "string list"
  | DeletePort_call string
  | ListPorts_call string
  | NetworkIDFromName_call string
  | GroupIDFromName_call string
  | PortIDFromName_call string

type_synonym history = "call list"

record Compute =
  CreateServer :: "history \<Rightarrow> CreateOpts \<Rightarrow> error + Server"
  BootFromVolume :: "history \<Rightarrow> CreateOpts \<Rightarrow> error + Server"
  GetServer :: "history \<Rightarrow> string \<Rightarrow> error + Server"
  ListServers :: "history \<Rightarrow> string \<Rightarrow> error + Server list"
  DeleteServer :: "history \<Rightarrow> string \<Rightarrow> error option"
  ImageIDFromName :: "history \<Rightarrow> string \<Rightarrow> error + string"
  FlavorIDFromName :: "history \<Rightarrow> string \<Rightarrow> error + string"

record Network =
  GetSubnet :: "history \<Rightarrow> string \<Rightarrow> error option"
  CreatePort :: "history \<Rightarrow> PortCreateOpts \<Rightarrow> error + Port"
  UpdatePort :: "history \<Rightarrow> string \<Rightarrow> string list \<Rightarrow> error option"
  DeletePort :: "history \<Rightarrow> string \<Rightarrow> error option"
  ListPorts :: "history \<Rightarrow> string \<Rightarrow> error + Port list"
  NetworkIDFromName :: "history \<Rightarrow> string \<Rightarrow> error + string"
  GroupIDFromName :: "history \<Rightarrow> string \<Rightarrow> error + string"
  PortIDFromName :: "history \<Rightarrow> string \<Rightarrow> error + string"

record Executor =
  Compute :: Compute
  Network :: Network
  Config :: MachineProviderConfig

text \<open>One capability call: its answer on the history so far, and the history with the call.\<close>

definition perform :: "call \<Rightarrow> (history \<Rightarrow> 'a) \<Rightarrow> history \<Rightarrow> 'a \<times> history" where
  "perform c answer h = (answer h, c # h)"

section \<open>The instance locator\<close>

text \<open>
  \<^verbatim>\<open>getMachineByName\<close> (executor.go, lines 460-504). The loop over the tag names keeps
  the last name containing the cluster prefix and the last name containing the role
  prefix (and not the cluster prefix).
\<close>

definition getMachineByName ::
    "cloudprovider \<Rightarrow> Executor \<Rightarrow> string \<Rightarrow> history \<Rightarrow> (error + Server) \<times> history" where
  "getMachineByName cp ex machineName h =
     (let (searchClusterName, searchNodeRole) =
            foldl (\<lambda>(c, r) key.
                     if strings_Contains key (ServerTagClusterPrefix cp) then (key, r)
                     else if strings_Contains key (ServerTagRolePrefix cp) then (c, key)
                     else (c, r))
              ([], []) (map fst (Tags (Spec (Config ex))))
      in if searchClusterName = [] \<or> searchNodeRole = [] then
           (Inl (Errorf ''getMachineByName operation can not proceed: cluster/role tags are missing for machine [Name=%q]''
                   [machineName] None None), h)
         else
           (case perform (ListServers_call machineName)
                   (\<lambda>h. ListServers (Compute ex) h machineName) h of
              (Inl err, h1) \<Rightarrow> (Inl err, h1)
            | (Inr listedServers, h1) \<Rightarrow>
                (let matchingServers =
                       filter (\<lambda>server. srv_Name server = machineName
                                 \<and> srv_Metadata server searchClusterName \<noteq> None
                                 \<and> srv_Metadata server searchNodeRole \<noteq> None)
                         listedServers
                 in if length matchingServers > 1 then
                      (Inl (Errorf ''failed to find server [Name=%q]: %w''
                              [machineName] (Some ErrMultipleFound) None), h1)
                    else if length matchingServers = 0 then
                      (Inl (Errorf ''failed to find server [Name=%q]: %w''
                              [machineName] (Some ErrNotFound) None), h1)
                    else (Inr (matchingServers ! 0), h1))))"

text \<open>
  Modelled from the spec: \<^verbatim>\<open>EncodeProviderID\<close> is not among the source files. The spec
  gives the wire format \<^verbatim>\<open>openstack:///<region>/<instance-id>\<close>.
\<close>

definition EncodeProviderID :: "string \<Rightarrow> string \<Rightarrow> string" where
  "EncodeProviderID region serverID = ''openstack:///'' @ region @ ''/'' @ serverID"

text \<open>
  Modelled from the spec: \<^verbatim>\<open>DecodeProviderID\<close> is not among the source files. Its callers
  in executor.go take one string from it, the raw instance id, and test it for emptiness.
  By the spec it reads the wire format and "fails (empty raw id) if the string does not
  match this shape": after the scheme \<^verbatim>\<open>openstack:///\<close> the raw id is the part after the
  last \<^verbatim>\<open>/\<close>, the region the part before it, and both must be non-empty.
\<close>

definition DecodeProviderID :: "string \<Rightarrow> string" where
  "DecodeProviderID providerID =
     (if prefix ''openstack:///'' providerID then
        (let rest = drop (length ''openstack:///'') providerID;
             serverID = rev (takeWhile (\<lambda>c. c \<noteq> CHR ''/'') (rev rest));
             region = take (length rest - length serverID - 1) rest
         in if CHR ''/'' \<in> set rest \<and> region \<noteq> [] \<and> serverID \<noteq> [] then serverID else [])
      else [])"

text \<open>\<^verbatim>\<open>getMachineByProviderID\<close> (executor.go, lines 415-452).\<close>

definition getMachineByProviderID ::
    "cloudprovider \<Rightarrow> Executor \<Rightarrow> string \<Rightarrow> history \<Rightarrow> (error + Server) \<times> history" where
  "getMachineByProviderID cp ex providerID h =
     (let serverID = DecodeProviderID providerID
      in if isEmptyString (StringPtr serverID) then
           (Inl (Errorf ''could not parse serverID from providerID %q'' [providerID] None None), h)
         else
           (case perform (GetServer_call serverID) (\<lambda>h. GetServer (Compute ex) h serverID) h of
              (Inl err, h1) \<Rightarrow>
                (if IsNotFoundError err then
                   (Inl (Errorf ''could not find server [ID=%q]: %w''
                           [serverID] (Some ErrNotFound) None), h1)
                 else (Inl err, h1))
            | (Inr server, h1) \<Rightarrow>
                (let (searchClusterName, searchNodeRole) =
                       foldl (\<lambda>(c, r) key.
                                if strings_Contains key (ServerTagClusterPrefix cp) then (key, r)
                                else if strings_Contains key (ServerTagRolePrefix cp) then (c, key)
                                else (c, r))
                         ([], []) (map fst (Tags (Spec (Config ex))))
                 in if srv_Metadata server searchClusterName \<noteq> None
                       \<and> srv_Metadata server searchNodeRole \<noteq> None then
                      (Inr server, h1)
                    else
                      (Inl (Errorf ''could not find server [ID=%q]: %w''
                              [serverID] (Some ErrNotFound) None), h1))))"

text \<open>
  \<^verbatim>\<open>ListMachines\<close> (executor.go, lines 540-574). The result is a Go map from provider id
  to server name; a later server with the same provider id overwrites an earlier one.
\<close>

definition ListMachines ::
    "cloudprovider \<Rightarrow> Executor \<Rightarrow> history \<Rightarrow> (error + (string \<rightharpoonup> string)) \<times> history" where
  "ListMachines cp ex h =
     (let (searchClusterName, searchNodeRole) =
            foldl (\<lambda>(c, r) key.
                     if strings_Contains key (ServerTagClusterPrefix cp) then (key, r)
                     else if strings_Contains key (ServerTagRolePrefix cp) then (c, key)
                     else (c, r))
              ([], []) (map fst (Tags (Spec (Config ex))))
      in if searchClusterName = [] \<or> searchNodeRole = [] then
           (Inl (Errorf ''operation can not proceed: cluster/role tags are missing'' [] None None), h)
         else
           (case perform (ListServers_call []) (\<lambda>h. ListServers (Compute ex) h []) h of
              (Inl err, h1) \<Rightarrow> (Inl err, h1)
            | (Inr servers, h1) \<Rightarrow>
                (Inr (foldl (\<lambda>result server.
                               if srv_Metadata server searchClusterName \<noteq> None
                                  \<and> srv_Metadata server searchNodeRole \<noteq> None then
                                 result(EncodeProviderID (Region (Spec (Config ex))) (srv_ID server)
                                          \<mapsto> srv_Name server)
                               else result)
                        Map.empty servers), h1)))"

section \<open>The status poller\<close>

text \<open>
  Durations are Go's \<^verbatim>\<open>time.Duration\<close>: nanoseconds in a signed 64-bit integer, whose
  arithmetic wraps around. \<open>int64 n\<close> is the value of that type that the integer \<open>n\<close> wraps to,
  and \<open>Second\<close> is \<^verbatim>\<open>time.Second\<close>.
\<close>

definition int64 :: "int \<Rightarrow> int" where
  "int64 n = (n + 2 ^ 63) mod 2 ^ 64 - 2 ^ 63"

definition Second :: int where
  "Second = 1000000000"

type_synonym condition = "history \<Rightarrow> (bool \<times> error option) \<times> history"

text \<open>
  \<^verbatim>\<open>wait.Poll(interval, timeout, condition)\<close> of the Kubernetes library (\<^verbatim>\<open>WaitFor\<close> over
  \<^verbatim>\<open>poller(interval, timeout)\<close>). The poller sends a tick on its channel every interval
  and closes the channel when the timeout has passed; \<^verbatim>\<open>WaitFor\<close> runs the condition once
  for every tick and once more when the channel is closed. A run that returns an error
  ends the poll with that error, a run that reports done ends it with no error, and the
  run on the closed channel that does neither ends it with the timeout error. So
  \<^item> with a positive timeout the condition runs on the ticks up to the deadline and then
    once more (\<open>poll_ticks\<close>);
  \<^item> with a negative timeout the channel is closed at once and the condition runs once;
  \<^item> with the timeout 0 the poller has no timer: the condition runs on every tick for
    ever, and the poll returns only if a run ends it (\<open>poll_forever\<close>, whose value \<open>None\<close>
    is a poll that never returns).
  Wall-clock time is not modelled beyond the count of the ticks: a run of the condition
  takes no time, so that no tick is dropped, and the tick that falls on the deadline comes
  before the channel is closed. The interval is positive (the executor passes one second).
\<close>

fun poll_ticks :: "nat \<Rightarrow> condition \<Rightarrow> history \<Rightarrow> error option \<times> history" where
  "poll_ticks 0 condition h =
     (case condition h of
        ((ok, err), h1) \<Rightarrow>
          if err \<noteq> None then (err, h1)
          else if ok then (None, h1)
          else (Some ErrWaitTimeout, h1))"
| "poll_ticks (Suc ticks) condition h =
     (case condition h of
        ((ok, err), h1) \<Rightarrow>
          if err \<noteq> None then (err, h1)
          else if ok then (None, h1)
          else poll_ticks ticks condition h1)"

partial_function (option) poll_forever ::
    "condition \<Rightarrow> history \<Rightarrow> (error option \<times> history) option" where
  "poll_forever condition h =
     (case condition h of
        ((ok, err), h1) \<Rightarrow>
          if err \<noteq> None then Some (err, h1)
          else if ok then Some (None, h1)
          else poll_forever condition h1)"

definition wait_Poll ::
    "int \<Rightarrow> int \<Rightarrow> condition \<Rightarrow> history \<Rightarrow> (error option \<times> history) option" where
  "wait_Poll interval timeout condition h =
     (if timeout = 0 then poll_forever condition h
      else if timeout < 0 then Some (poll_ticks 0 condition h)
      else Some (poll_ticks (nat (timeout div interval)) condition h))"

text \<open>The condition function that \<^verbatim>\<open>waitForStatus\<close> polls (executor.go, lines 221-246).\<close>

definition waitForStatus_condition ::
    "Executor \<Rightarrow> string \<Rightarrow> string list \<Rightarrow> string list \<Rightarrow> history
       \<Rightarrow> (bool \<times> error option) \<times> history" where
  "waitForStatus_condition ex serverID pending target h =
     (case perform (GetServer_call serverID) (\<lambda>h. GetServer (Compute ex) h serverID) h of
        (Inl err, h1) \<Rightarrow>
          (if IsNotFoundError err \<and> strSliceContains target ServerStatusDeleted then
             ((True, None), h1)
           else ((False, Some err), h1))
      | (Inr current, h1) \<Rightarrow>
          (if strSliceContains target (srv_Status current) then ((True, None), h1)
           else if length pending = 0 \<or> strSliceContains pending (srv_Status current) then
             ((False, None), h1)
           else
             (let retErr = Errorf ''server [ID=%q] reached unexpected status %q''
                             [serverID, srv_Status current] None None;
                  retErr = (if srv_Status current = ServerStatusError then
                              Errorf ''%s, fault: %+v'' [srv_Fault current] None (Some retErr)
                            else retErr)
              in ((False, Some retErr), h1))))"

text \<open>
  \<^verbatim>\<open>waitForStatus\<close> (executor.go, lines 220-247). \<open>secs\<close> is a Go \<^verbatim>\<open>int\<close>; the timeout
  \<^verbatim>\<open>time.Duration(secs)*time.Second\<close> is computed in 64 bits and wraps around. The value
  \<open>None\<close> is a wait that never returns.
\<close>

definition waitForStatus ::
    "Executor \<Rightarrow> string \<Rightarrow> string list \<Rightarrow> string list \<Rightarrow> int \<Rightarrow> history
       \<Rightarrow> (error option \<times> history) option" where
  "waitForStatus ex serverID pending target secs h =
     wait_Poll Second (int64 (secs * Second))
       (waitForStatus_condition ex serverID pending target) h"

section \<open>Delete\<close>

text \<open>\<^verbatim>\<open>deletePort\<close> (executor.go, lines 393-412).\<close>

definition deletePort :: "Executor \<Rightarrow> string \<Rightarrow> history \<Rightarrow> error option \<times> history" where
  "deletePort ex machineName h =
     (case perform (PortIDFromName_call machineName)
             (\<lambda>h. PortIDFromName (Network ex) h machineName) h of
        (Inl err, h1) \<Rightarrow>
          (if IsNotFoundError err then (None, h1)
           else (Some (Errorf ''error deleting port with name %q: %s''
                         [machineName] None (Some err)), h1))
      | (Inr portID, h1) \<Rightarrow>
          (case perform (DeletePort_call portID) (\<lambda>h. DeletePort (Network ex) h portID) h1 of
             (Some err, h2) \<Rightarrow> (Some err, h2)
           | (None, h2) \<Rightarrow> (None, h2)))"

text \<open>
  \<^verbatim>\<open>DeleteMachine\<close> (executor.go, lines 359-391). The value \<open>None\<close> is a call that never
  returns, which it does only if its wait never returns.
\<close>

definition DeleteMachine ::
    "cloudprovider \<Rightarrow> Executor \<Rightarrow> string \<Rightarrow> string \<Rightarrow> history
       \<Rightarrow> (error option \<times> history) option" where
  "DeleteMachine cp ex machineName providerID h =
     (case (if isEmptyString (StringPtr providerID) then getMachineByName cp ex machineName h
            else getMachineByProviderID cp ex providerID h) of
        (Inl err, h1) \<Rightarrow>
          (if errors_Is err ErrNotFound then Some (None, h1) else Some (Some err, h1))
      | (Inr server, h1) \<Rightarrow>
          (case perform (DeleteServer_call (srv_ID server))
                  (\<lambda>h. DeleteServer (Compute ex) h (srv_ID server)) h1 of
             (Some err, h2) \<Rightarrow> Some (Some err, h2)
           | (None, h2) \<Rightarrow>
               (case waitForStatus ex (srv_ID server) [] [ServerStatusDeleted] 300 h2 of
                  None \<Rightarrow> None
                | Some (Some err, h3) \<Rightarrow>
                    Some (Some (Errorf ''error while waiting for server [ID=%q] to be deleted: %v''
                                  [srv_ID server] None (Some err)), h3)
                | Some (None, h3) \<Rightarrow>
                    (if \<not> isEmptyString (SubnetID (Spec (Config ex))) then
                       Some (deletePort ex machineName h3)
                     else Some (None, h3)))))"

section \<open>The network resolver\<close>

text \<open>The loop over the security groups (executor.go, lines 112-119).\<close>

fun securityGroupIDs_loop ::
    "Executor \<Rightarrow> string list \<Rightarrow> string list \<Rightarrow> history \<Rightarrow> (error + string list) \<times> history" where
  "securityGroupIDs_loop ex [] securityGroupIDs h = (Inr securityGroupIDs, h)"
| "securityGroupIDs_loop ex (securityGroup # rest) securityGroupIDs h =
     (case perform (GroupIDFromName_call securityGroup)
             (\<lambda>h. GroupIDFromName (Network ex) h securityGroup) h of
        (Inl err, h1) \<Rightarrow> (Inl err, h1)
      | (Inr securityGroupID, h1) \<Rightarrow>
          securityGroupIDs_loop ex rest (securityGroupIDs @ [securityGroupID]) h1)"

text \<open>The loop over the configured networks (executor.go, lines 142-156).\<close>

fun serverNetworks_loop ::
    "Executor \<Rightarrow> OpenStackNetwork list \<Rightarrow> ServerNetwork list \<Rightarrow> history
       \<Rightarrow> (error + ServerNetwork list) \<times> history" where
  "serverNetworks_loop ex [] serverNetworks h = (Inr serverNetworks, h)"
| "serverNetworks_loop ex (network # rest) serverNetworks h =
     (if isEmptyString (StringPtr (net_Id network)) then
        (case perform (NetworkIDFromName_call (net_Name network))
                (\<lambda>h. NetworkIDFromName (Network ex) h (net_Name network)) h of
           (Inl err, h1) \<Rightarrow> (Inl err, h1)
         | (Inr resolvedNetworkID, h1) \<Rightarrow>
             serverNetworks_loop ex rest
               (serverNetworks @ [\<lparr>UUID = resolvedNetworkID, Port = []\<rparr>]) h1)
      else
        serverNetworks_loop ex rest (serverNetworks @ [\<lparr>UUID = net_Id network, Port = []\<rparr>]) h)"

text \<open>
  \<^verbatim>\<open>computeServerNetworks\<close> (executor.go, lines 94-160). The pointer \<^verbatim>\<open>subnetID\<close> is
  dereferenced only where \<^verbatim>\<open>isEmptyString\<close> has found it non-nil.
\<close>

definition computeServerNetworks ::
    "Executor \<Rightarrow> string \<Rightarrow> history \<Rightarrow> (error + ServerNetwork list) \<times> history" where
  "computeServerNetworks ex machineName h =
     (let networkID = NetworkID (Spec (Config ex));
          subnetID = SubnetID (Spec (Config ex));
          networks = Networks (Spec (Config ex))
      in if \<not> isEmptyString (StringPtr networkID) \<and> \<not> isEmptyString subnetID then
           (case perform (GetSubnet_call (the subnetID))
                   (\<lambda>h. GetSubnet (Network ex) h (the subnetID)) h of
              (Some err, h1) \<Rightarrow> (Inl err, h1)
            | (None, h1) \<Rightarrow>
                (case securityGroupIDs_loop ex (SecurityGroups (Spec (Config ex))) [] h1 of
                   (Inl err, h2) \<Rightarrow> (Inl err, h2)
                 | (Inr securityGroupIDs, h2) \<Rightarrow>
                     (let opts = \<lparr>pc_Name = machineName,
                                  pc_NetworkID = NetworkID (Spec (Config ex)),
                                  pc_FixedIPs = [the (SubnetID (Spec (Config ex)))],
                                  pc_AllowedAddressPairs = [PodNetworkCidr (Spec (Config ex))],
                                  pc_SecurityGroups = securityGroupIDs\<rparr>
                      in case perform (CreatePort_call opts)
                                (\<lambda>h. CreatePort (Network ex) h opts) h2 of
                           (Inl err, h3) \<Rightarrow> (Inl err, h3)
                         | (Inr port, h3) \<Rightarrow>
                             (Inr [\<lparr>UUID = NetworkID (Spec (Config ex)), Port = port_ID port\<rparr>],
                              h3))))
         else if \<not> isEmptyString (StringPtr networkID) then
           (Inr [\<lparr>UUID = NetworkID (Spec (Config ex)), Port = []\<rparr>], h)
         else serverNetworks_loop ex networks [] h)"

text \<open>
  The loop of \<^verbatim>\<open>computePodNetworkIDs\<close> over the configured networks (executor.go, lines
  173-190); \<open>networkIDs\<close> is the \<^verbatim>\<open>sets.String\<close>.
\<close>

fun podNetworkIDs_loop ::
    "Executor \<Rightarrow> OpenStackNetwork list \<Rightarrow> string set \<Rightarrow> history
       \<Rightarrow> (error + string set) \<times> history" where
  "podNetworkIDs_loop ex [] networkIDs h = (Inr networkIDs, h)"
| "podNetworkIDs_loop ex (network # rest) networkIDs h =
     (if net_PodNetwork network then
        (if isEmptyString (StringPtr (net_Id network)) then
           (case perform (NetworkIDFromName_call (net_Name network))
                   (\<lambda>h. NetworkIDFromName (Network ex) h (net_Name network)) h of
              (Inl err, h1) \<Rightarrow> (Inl err, h1)
            | (Inr resolvedNetworkID, h1) \<Rightarrow>
                podNetworkIDs_loop ex rest (insert resolvedNetworkID networkIDs) h1)
         else podNetworkIDs_loop ex rest (insert (net_Id network) networkIDs) h)
      else podNetworkIDs_loop ex rest networkIDs h)"

text \<open>\<^verbatim>\<open>computePodNetworkIDs\<close> (executor.go, lines 162-216).\<close>

definition computePodNetworkIDs ::
    "Executor \<Rightarrow> string \<Rightarrow> history \<Rightarrow> (error + Port list) \<times> history" where
  "computePodNetworkIDs ex serverID h =
     (let networkID = NetworkID (Spec (Config ex));
          networks = Networks (Spec (Config ex))
      in case (if \<not> isEmptyString (StringPtr networkID) then (Inr (insert networkID {}), h)
               else podNetworkIDs_loop ex networks {} h) of
           (Inl err, h1) \<Rightarrow> (Inl err, h1)
         | (Inr networkIDs, h1) \<Rightarrow>
             (case perform (ListPorts_call serverID)
                     (\<lambda>h. ListPorts (Network ex) h serverID) h1 of
                (Inl err, h2) \<Rightarrow> (Inl (Errorf ''failed to get ports: %v'' [] None (Some err)), h2)
              | (Inr serverPorts, h2) \<Rightarrow>
                  (if length serverPorts = 0 then
                     (Inl (Errorf ''got an empty port list for server %q'' [serverID] None None), h2)
                   else
                     (let result = filter (\<lambda>port. port_NetworkID port \<in> networkIDs) serverPorts
                      in if length result = 0 then
                           (Inl (Errorf ''no port candidates found for pod network'' [] None None),
                            h2)
                         else (Inr result, h2)))))"

section \<open>The instance provisioner\<close>

text \<open>\<^verbatim>\<open>resourceInstanceBlockDevicesV2\<close> (executor.go, lines 325-337).\<close>

definition resourceInstanceBlockDevicesV2 :: "int \<Rightarrow> string \<Rightarrow> error + BlockDevice list" where
  "resourceInstanceBlockDevicesV2 rootDiskSize imageID =
     Inr [\<lparr>bd_UUID = imageID, bd_VolumeSize = rootDiskSize, bd_BootIndex = 0,
           bd_DeleteOnTermination = True, bd_SourceType = ''image'',
           bd_DestinationType = ''volume''\<rparr>]"

text \<open>\<^verbatim>\<open>deployServer\<close> (executor.go, lines 250-323).\<close>

definition deployServer ::
    "Executor \<Rightarrow> string \<Rightarrow> string \<Rightarrow> ServerNetwork list \<Rightarrow> history
       \<Rightarrow> (error + Server) \<times> history" where
  "deployServer ex machineName userData nws h =
     (let spec = Spec (Config ex);
          imageName = ImageName spec;
          imageID = ImageID spec;
          rootDiskSize = RootDiskSize spec
      in case (if imageID \<noteq> [] then (Inr imageID, h)
               else (case perform (ImageIDFromName_call imageName)
                             (\<lambda>h. ImageIDFromName (Compute ex) h imageName) h of
                       (Inl err, h1) \<Rightarrow>
                         (Inl (Errorf ''error resolving image ID from image name %q: %v''
                                 [imageName] None (Some err)), h1)
                     | (Inr imageRef, h1) \<Rightarrow> (Inr imageRef, h1))) of
           (Inl err, h1) \<Rightarrow> (Inl err, h1)
         | (Inr imageRef, h1) \<Rightarrow>
             (case perform (FlavorIDFromName_call (FlavorName spec))
                     (\<lambda>h. FlavorIDFromName (Compute ex) h (FlavorName spec)) h1 of
                (Inl err, h2) \<Rightarrow>
                  (Inl (Errorf ''error resolving flavor ID from flavor name %q: %v''
                          [imageName] None (Some err)), h2)
              | (Inr flavorRef, h2) \<Rightarrow>
                  (let createOpts =
                         \<lparr>co_Name = machineName, co_FlavorRef = flavorRef, co_ImageRef = imageRef,
                          co_Networks = nws, co_SecurityGroups = SecurityGroups spec,
                          co_Metadata = Tags spec, co_UserData = userData,
                          co_AvailabilityZone = AvailabilityZone spec,
                          co_ConfigDrive = UseConfigDrive spec, co_KeyName = KeyName spec,
                          co_SchedulerHintsGroup = ServerGroupID spec, co_BlockDevice = []\<rparr>
                   in if rootDiskSize > 0 then
                        (case resourceInstanceBlockDevicesV2 rootDiskSize imageRef of
                           Inl err \<Rightarrow> (Inl err, h2)
                         | Inr blockDevices \<Rightarrow>
                             (let createOpts = createOpts\<lparr>co_BlockDevice := blockDevices\<rparr>
                              in perform (BootFromVolume_call createOpts)
                                   (\<lambda>h. BootFromVolume (Compute ex) h createOpts) h2))
                      else perform (CreateServer_call createOpts)
                             (\<lambda>h. CreateServer (Compute ex) h createOpts) h2)))"

section \<open>Port reconciliation\<close>

text \<open>The loop over the pod-network ports (executor.go, lines 346-352).\<close>

fun updatePorts_loop :: "Executor \<Rightarrow> Port list \<Rightarrow> history \<Rightarrow> error option \<times> history" where
  "updatePorts_loop ex [] h = (None, h)"
| "updatePorts_loop ex (port # rest) h =
     (case perform (UpdatePort_call (port_ID port) [PodNetworkCidr (Spec (Config ex))])
             (\<lambda>h. UpdatePort (Network ex) h (port_ID port) [PodNetworkCidr (Spec (Config ex))]) h of
        (Some err, h1) \<Rightarrow>
          (Some (Errorf ''failed to update allowed address pair for port [ID=%q]: %v''
                   [port_ID port] None (Some err)), h1)
      | (None, h1) \<Rightarrow> updatePorts_loop ex rest h1)"

text \<open>\<^verbatim>\<open>patchServerPortsForPodNetwork\<close> (executor.go, lines 340-354).\<close>

definition patchServerPortsForPodNetwork ::
    "Executor \<Rightarrow> string \<Rightarrow> history \<Rightarrow> error option \<times> history" where
  "patchServerPortsForPodNetwork ex serverID h =
     (case computePodNetworkIDs ex serverID h of
        (Inl err, h1) \<Rightarrow> (Some err, h1)
      | (Inr podNetworkPorts, h1) \<Rightarrow> updatePorts_loop ex podNetworkPorts h1)"

section \<open>Create\<close>

text \<open>
  The closure \<^verbatim>\<open>deleteOnFail\<close> of \<^verbatim>\<open>CreateMachine\<close> (executor.go, lines 75-81); the server,
  the machine name and the provider id it captures are arguments here.
\<close>

definition deleteOnFail ::
    "cloudprovider \<Rightarrow> Executor \<Rightarrow> string \<Rightarrow> string \<Rightarrow> Server \<Rightarrow> error \<Rightarrow> history
       \<Rightarrow> (error \<times> history) option" where
  "deleteOnFail cp ex machineName providerID server err h =
     (case DeleteMachine cp ex machineName providerID h of
        None \<Rightarrow> None
      | Some (Some errIn, h1) \<Rightarrow>
          Some (Errorf ''error deleting server [ID=%q] after unsuccessful creation attempt: %w. Original error: %v''
                  [srv_ID server] (Some errIn) (Some err), h1)
      | Some (None, h1) \<Rightarrow> Some (err, h1))"

text \<open>
  \<^verbatim>\<open>CreateMachine\<close> (executor.go, lines 61-92). Go returns the pair of a provider id and
  an error, the id empty whenever the error is set: \<open>Inl\<close> is the error, \<open>Inr\<close> the id. The
  value \<open>None\<close> is a call that never returns.
\<close>

definition CreateMachine ::
    "cloudprovider \<Rightarrow> Executor \<Rightarrow> string \<Rightarrow> string \<Rightarrow> history
       \<Rightarrow> ((error + string) \<times> history) option" where
  "CreateMachine cp ex machineName userData h =
     (case computeServerNetworks ex machineName h of
        (Inl err, h1) \<Rightarrow>
          Some (Inl (Errorf ''failed to resolve server networks: %w'' [] (Some err) None), h1)
      | (Inr serverNetworks, h1) \<Rightarrow>
          (case deployServer ex machineName userData serverNetworks h1 of
             (Inl err, h2) \<Rightarrow>
               Some (Inl (Errorf ''failed to deploy server for machine %q: %w''
                            [machineName] (Some err) None), h2)
           | (Inr server, h2) \<Rightarrow>
               (let providerID = EncodeProviderID (Region (Spec (Config ex))) (srv_ID server)
                in case waitForStatus ex (srv_ID server) [ServerStatusBuild] [ServerStatusActive]
                          600 h2 of
                     None \<Rightarrow> None
                   | Some (Some err, h3) \<Rightarrow>
                       (case deleteOnFail cp ex machineName providerID server
                               (Errorf ''error waiting for server [ID=%q] to reach target status: %w''
                                  [srv_ID server] (Some err) None) h3 of
                          None \<Rightarrow> None
                        | Some (err', h4) \<Rightarrow> Some (Inl err', h4))
                   | Some (None, h3) \<Rightarrow>
                       (case patchServerPortsForPodNetwork ex (srv_ID server) h3 of
                          (Some err, h4) \<Rightarrow>
                            (case deleteOnFail cp ex machineName providerID server
                                    (Errorf ''failed to patch server [ID=%q] ports: %s''
                                       [srv_ID server] None (Some err)) h4 of
                               None \<Rightarrow> None
                             | Some (err', h5) \<Rightarrow> Some (Inl err', h5))
                        | (None, h4) \<Rightarrow> Some (Inr providerID, h4)))))"

section \<open>Notions of the specification\<close>

text \<open>
  The two tag names that the three lookups derive from the configuration, each by its own
  copy of the same loop: the pair (cluster tag name, role tag name), empty where no tag
  name matches.
\<close>

definition searchTags :: "cloudprovider \<Rightarrow> (string \<times> string) list \<Rightarrow> string \<times> string" where
  "searchTags cp tags =
     foldl (\<lambda>(c, r) key.
              if strings_Contains key (ServerTagClusterPrefix cp) then (key, r)
              else if strings_Contains key (ServerTagRolePrefix cp) then (c, key)
              else (c, r))
       ([], []) (map fst tags)"

text \<open>The ownership test: the metadata of the server has both tag names as keys.\<close>

definition hasOwnershipTags :: "string \<times> string \<Rightarrow> Server \<Rightarrow> bool" where
  "hasOwnershipTags keys server =
     (srv_Metadata server (fst keys) \<noteq> None \<and> srv_Metadata server (snd keys) \<noteq> None)"

section \<open>Example configurations and providers\<close>

text \<open>
  Concrete values on which the theorems below are instantiated. The capabilities
  \<open>no_Compute\<close> and \<open>no_Network\<close> fail every call; an example overrides the calls it needs.
\<close>

definition example_cp :: cloudprovider where
  "example_cp = \<lparr>ServerTagClusterPrefix = ''kubernetes.io-cluster-'',
                 ServerTagRolePrefix = ''kubernetes.io-role-''\<rparr>"

definition example_tags :: "(string \<times> string) list" where
  "example_tags = [(''kubernetes.io-cluster-shoot'', ''1''), (''kubernetes.io-role-node'', ''1'')]"

definition example_spec :: MachineProviderConfigSpec where
  "example_spec =
     \<lparr>Region = ''eu-de-1'', NetworkID = ''net-1'', SubnetID = Some ''subnet-1'', Networks = [],
      SecurityGroups = [''sg-a'', ''sg-b''], PodNetworkCidr = ''100.96.0.0/11'',
      Tags = example_tags, ImageID = ''img-1'', ImageName = [], FlavorName = ''m1.large'',
      KeyName = ''key'', AvailabilityZone = ''az-1'', RootDiskSize = 0, UseConfigDrive = None,
      ServerGroupID = None\<rparr>"

definition unavailable :: error where
  "unavailable = ClientError False ''unavailable''"

definition notFound :: error where
  "notFound = ClientError True ''Resource not found''"

definition no_Compute :: Compute where
  "no_Compute =
     \<lparr>CreateServer = (\<lambda>h opts. Inl unavailable), BootFromVolume = (\<lambda>h opts. Inl unavailable),
      GetServer = (\<lambda>h serverID. Inl unavailable), ListServers = (\<lambda>h name. Inl unavailable),
      DeleteServer = (\<lambda>h serverID. Some unavailable),
      ImageIDFromName = (\<lambda>h name. Inl unavailable),
      FlavorIDFromName = (\<lambda>h name. Inl unavailable)\<rparr>"

definition no_Network :: Network where
  "no_Network =
     \<lparr>GetSubnet = (\<lambda>h subnetID. Some unavailable), CreatePort = (\<lambda>h opts. Inl unavailable),
      UpdatePort = (\<lambda>h portID pairs. Some unavailable),
      DeletePort = (\<lambda>h portID. Some unavailable), ListPorts = (\<lambda>h serverID. Inl unavailable),
      NetworkIDFromName = (\<lambda>h name. Inl unavailable),
      GroupIDFromName = (\<lambda>h name. Inl unavailable),
      PortIDFromName = (\<lambda>h name. Inl unavailable)\<rparr>"

definition example_server :: "string \<Rightarrow> string \<Rightarrow> Server" where
  "example_server serverID status =
     \<lparr>srv_ID = serverID, srv_Name = ''machine-1'', srv_Status = status,
      srv_Metadata = map_of example_tags, srv_Fault = []\<rparr>"

definition foreign_server :: Server where
  "foreign_server =
     \<lparr>srv_ID = ''srv-9'', srv_Name = ''machine-1'', srv_Status = ''ACTIVE'',
      srv_Metadata = Map.empty, srv_Fault = []\<rparr>"

definition listing_Executor :: "Server list \<Rightarrow> Executor" where
  "listing_Executor listed =
     \<lparr>Compute = no_Compute\<lparr>ListServers := (\<lambda>h name. Inr listed)\<rparr>, Network = no_Network,
      Config = \<lparr>Spec = example_spec\<rparr>\<rparr>"

text \<open>
  The lookup that \<open>DeleteMachine\<close> starts with: by name when no provider id is given, by
  provider id otherwise.
\<close>

definition locate ::
    "cloudprovider \<Rightarrow> Executor \<Rightarrow> string \<Rightarrow> string \<Rightarrow> history \<Rightarrow> (error + Server) \<times> history" where
  "locate cp ex machineName providerID h =
     (if isEmptyString (StringPtr providerID) then getMachineByName cp ex machineName h
      else getMachineByProviderID cp ex providerID h)"

text \<open>A provider on which no server exists.\<close>

definition absent_Executor :: Executor where
  "absent_Executor =
     \<lparr>Compute = no_Compute\<lparr>GetServer := (\<lambda>h serverID. Inl notFound),
                             ListServers := (\<lambda>h name. Inr [])\<rparr>,
      Network = no_Network, Config = \<lparr>Spec = example_spec\<rparr>\<rparr>"

text \<open>
  A compute capability whose \<open>GetServer\<close> follows a script: the \<open>n\<close>-th query of a server
  answers with the \<open>n\<close>-th entry of the script, and with \<open>rest\<close> once the script is used up.
\<close>

definition scripted_Executor :: "(error + Server) list \<Rightarrow> (error + Server) \<Rightarrow> Executor" where
  "scripted_Executor script rest =
     \<lparr>Compute = no_Compute\<lparr>GetServer :=
          (\<lambda>h serverID.
             (let n = count_list h (GetServer_call serverID)
              in if n < length script then script ! n else rest))\<rparr>,
      Network = no_Network, Config = \<lparr>Spec = example_spec\<rparr>\<rparr>"

text \<open>
  A provider on which every server exists and is tagged until it is deleted, and on which no
  port is found by name.
\<close>

definition deleting_Executor :: "MachineProviderConfigSpec \<Rightarrow> Executor" where
  "deleting_Executor spec =
     \<lparr>Compute = no_Compute\<lparr>
        GetServer := (\<lambda>h serverID. if DeleteServer_call serverID \<in> set h then Inl notFound
                                   else Inr (example_server serverID ''ACTIVE'')),
        DeleteServer := (\<lambda>h serverID. None)\<rparr>,
      Network = no_Network\<lparr>PortIDFromName := (\<lambda>h name. Inl notFound)\<rparr>,
      Config = \<lparr>Spec = spec\<rparr>\<rparr>"

text \<open>
  \<open>resolved ex h names ids\<close>: asked for the names one after the other, starting in the
  history \<open>h\<close>, \<open>GroupIDFromName\<close> answers every name with an id, and \<open>ids\<close> are these ids in
  the order of the names.
\<close>

fun resolved :: "Executor \<Rightarrow> history \<Rightarrow> string list \<Rightarrow> string list \<Rightarrow> bool" where
  "resolved ex h [] [] = True"
| "resolved ex h (securityGroup # rest) (securityGroupID # ids) =
     (GroupIDFromName (Network ex) h securityGroup = Inr securityGroupID
      \<and> resolved ex (GroupIDFromName_call securityGroup # h) rest ids)"
| "resolved ex h securityGroups ids = False"

text \<open>The calls that resolve the security groups, the latest first.\<close>

definition groupCalls :: "string list \<Rightarrow> history" where
  "groupCalls securityGroups = rev (map GroupIDFromName_call securityGroups)"

text \<open>
  The port of the claim: named after the machine, in the configured network, bound to the
  subnet, allowing the pod-network CIDR, with the given security-group ids.
\<close>

definition portOpts :: "Executor \<Rightarrow> string \<Rightarrow> string \<Rightarrow> string list \<Rightarrow> PortCreateOpts" where
  "portOpts ex machineName subnet ids =
     \<lparr>pc_Name = machineName, pc_NetworkID = NetworkID (Spec (Config ex)),
      pc_FixedIPs = [subnet], pc_AllowedAddressPairs = [PodNetworkCidr (Spec (Config ex))],
      pc_SecurityGroups = ids\<rparr>"

text \<open>A network capability on which every subnet, security group and port creation succeeds.\<close>

definition networking_Executor :: Executor where
  "networking_Executor =
     \<lparr>Compute = no_Compute,
      Network = no_Network\<lparr>
        GetSubnet := (\<lambda>h subnetID. None),
        GroupIDFromName := (\<lambda>h name. Inr (''id-'' @ name)),
        CreatePort := (\<lambda>h opts. Inr \<lparr>port_ID = ''port-1'', port_NetworkID = pc_NetworkID opts,
                                      port_AllowedAddressPairs = pc_AllowedAddressPairs opts\<rparr>)\<rparr>,
      Config = \<lparr>Spec = example_spec\<rparr>\<rparr>"

text \<open>The number of \<open>DeleteServer\<close> calls in a history.\<close>

fun isDeleteServer :: "call \<Rightarrow> bool" where
  "isDeleteServer (DeleteServer_call serverID) = True"
| "isDeleteServer c = False"

definition deletions :: "history \<Rightarrow> nat" where
  "deletions h = length (filter isDeleteServer h)"

text \<open>
  A provider that accepts a server but reports it in the error state, and on which the
  deletion of a server fails.
\<close>

definition rollback_Executor :: Executor where
  "rollback_Executor =
     \<lparr>Compute = no_Compute\<lparr>
        FlavorIDFromName := (\<lambda>h name. Inr ''flavor-1''),
        CreateServer := (\<lambda>h opts. Inr (example_server ''srv-1'' ''BUILD'')),
        GetServer := (\<lambda>h serverID.
                        Inr ((example_server serverID ''ERROR'')\<lparr>srv_Fault := ''No valid host''\<rparr>))\<rparr>,
      Network = no_Network,
      Config = \<lparr>Spec = example_spec\<lparr>SubnetID := None\<rparr>\<rparr>\<rparr>"

text \<open>
  The ids resolved from a list of configured networks, in the order of the list: the id
  of the entry when it has one, the answer of \<open>NetworkIDFromName\<close> to its name otherwise; the
  first name that does not resolve ends the resolution with its error.
\<close>

fun resolveNetworks ::
    "Executor \<Rightarrow> OpenStackNetwork list \<Rightarrow> history \<Rightarrow> (error + string list) \<times> history" where
  "resolveNetworks ex [] h = (Inr [], h)"
| "resolveNetworks ex (network # rest) h =
     (case (if isEmptyString (StringPtr (net_Id network)) then
              perform (NetworkIDFromName_call (net_Name network))
                (\<lambda>h. NetworkIDFromName (Network ex) h (net_Name network)) h
            else (Inr (net_Id network), h)) of
        (Inl err, h1) \<Rightarrow> (Inl err, h1)
      | (Inr resolvedNetworkID, h1) \<Rightarrow>
          (case resolveNetworks ex rest h1 of
             (Inl err, h2) \<Rightarrow> (Inl err, h2)
           | (Inr ids, h2) \<Rightarrow> (Inr (resolvedNetworkID # ids), h2)))"

text \<open>
  The network ids of the amended claim C6: the explicit network id when one is configured,
  otherwise the ids resolved from the entries of the network list flagged as pod network.
\<close>

definition discoveryNetworkIDs :: "Executor \<Rightarrow> history \<Rightarrow> (error + string list) \<times> history" where
  "discoveryNetworkIDs ex h =
     (if \<not> isEmptyString (StringPtr (NetworkID (Spec (Config ex)))) then
        (Inr [NetworkID (Spec (Config ex))], h)
      else resolveNetworks ex (filter net_PodNetwork (Networks (Spec (Config ex)))) h)"

text \<open>
  A configuration with one listed network that is not flagged as pod network, and a
  server whose only port is on that network.
\<close>

definition flagless_Executor :: Executor where
  "flagless_Executor =
     \<lparr>Compute = no_Compute,
      Network = no_Network\<lparr>
        ListPorts := (\<lambda>h serverID. Inr [\<lparr>port_ID = ''port-1'', port_NetworkID = ''net-1'',
                                         port_AllowedAddressPairs = []\<rparr>])\<rparr>,
      Config = \<lparr>Spec = example_spec\<lparr>
        NetworkID := [], SubnetID := None,
        Networks := [\<lparr>net_Id = ''net-1'', net_Name = ''workers'', net_PodNetwork = False\<rparr>]\<rparr>\<rparr>\<rparr>"

text \<open>
  A configuration with two listed networks, the second one flagged as pod network and
  given by name, and a server with a port on each.
\<close>

definition twoNetworks_Executor :: Executor where
  "twoNetworks_Executor =
     \<lparr>Compute = no_Compute,
      Network = no_Network\<lparr>
        NetworkIDFromName := (\<lambda>h name. Inr ''net-2''),
        ListPorts := (\<lambda>h serverID.
          Inr [\<lparr>port_ID = ''port-1'', port_NetworkID = ''net-1'', port_AllowedAddressPairs = []\<rparr>,
               \<lparr>port_ID = ''port-2'', port_NetworkID = ''net-2'', port_AllowedAddressPairs = []\<rparr>])\<rparr>,
      Config = \<lparr>Spec = example_spec\<lparr>
        NetworkID := [], SubnetID := None,
        Networks := [\<lparr>net_Id = ''net-1'', net_Name = ''workers'', net_PodNetwork = False\<rparr>,
                     \<lparr>net_Id = [], net_Name = ''pods'', net_PodNetwork = True\<rparr>]\<rparr>\<rparr>\<rparr>"

text \<open>The last name of a list that satisfies \<open>P\<close>, the empty string when none does.\<close>

definition lastMatching :: "(string \<Rightarrow> bool) \<Rightarrow> string list \<Rightarrow> string" where
  "lastMatching P names = (if filter P names = [] then [] else last (filter P names))"

text \<open>
  A configuration whose cluster tag name has the cluster prefix inside it, not at its
  start, and a server that carries the two configured tag names.
\<close>

definition infix_Executor :: Executor where
  "infix_Executor =
     \<lparr>Compute = no_Compute\<lparr>
        ListServers := (\<lambda>h name.
          Inr [\<lparr>srv_ID = ''srv-1'', srv_Name = ''machine-1'', srv_Status = ''ACTIVE'',
                srv_Metadata = [''x-kubernetes.io-cluster-shoot'' \<mapsto> ''1'',
                                ''kubernetes.io-role-node'' \<mapsto> ''1''],
                srv_Fault = []\<rparr>])\<rparr>,
      Network = no_Network,
      Config = \<lparr>Spec = example_spec\<lparr>
        Tags := [(''x-kubernetes.io-cluster-shoot'', ''1''), (''kubernetes.io-role-node'', ''1'')]\<rparr>\<rparr>\<rparr>"

text \<open>
  A provider that accepts a server, reports it in the error state when it is first
  queried and no longer knows it afterwards.
\<close>

definition vanishing_Executor :: Executor where
  "vanishing_Executor =
     \<lparr>Compute = no_Compute\<lparr>
        FlavorIDFromName := (\<lambda>h name. Inr ''flavor-1''),
        CreateServer := (\<lambda>h opts. Inr (example_server ''srv-1'' ''BUILD'')),
        GetServer := (\<lambda>h serverID.
                        if GetServer_call serverID \<in> set h then Inl notFound
                        else Inr ((example_server serverID ''ERROR'')\<lparr>srv_Fault := ''No valid host''\<rparr>))\<rparr>,
      Network = no_Network,
      Config = \<lparr>Spec = example_spec\<lparr>SubnetID := None\<rparr>\<rparr>\<rparr>"

section \<open>Properties\<close>

subsection \<open>Lookup by name\<close>

lemma example_searchTags:
  "searchTags example_cp example_tags = (''kubernetes.io-cluster-shoot'', ''kubernetes.io-role-node'')"
  by (simp add: searchTags_def example_cp_def example_tags_def strings_Contains_def sublist_Cons_right)

text \<open>
  Claim C1. Once both tag names are found in the configuration and the listing of the
  servers named \<open>machineName\<close> has succeeded, \<open>getMachineByName\<close> filters the listed
  servers to those with that name whose metadata has both tag names. With no survivor it
  returns an error that is \<open>ErrNotFound\<close> (and is not \<open>ErrMultipleFound\<close>), with two or more
  an error that is \<open>ErrMultipleFound\<close> (and is not \<open>ErrNotFound\<close>), and with exactly one
  survivor it returns that server. The listing is its only call.
\<close>

theorem getMachineByName_survivors:
  assumes keys: "searchTags cp (Tags (Spec (Config ex))) = (c, r)" "c \<noteq> []" "r \<noteq> []"
    and listed: "ListServers (Compute ex) h machineName = Inr listed"
    and surv: "survivors = filter (\<lambda>server. srv_Name server = machineName \<and> hasOwnershipTags (c, r) server) listed"
  shows "(survivors = [] \<longrightarrow>
            (\<exists>e. getMachineByName cp ex machineName h = (Inl e, ListServers_call machineName # h)
                \<and> errors_Is e ErrNotFound \<and> \<not> errors_Is e ErrMultipleFound))
       \<and> (2 \<le> length survivors \<longrightarrow>
            (\<exists>e. getMachineByName cp ex machineName h = (Inl e, ListServers_call machineName # h)
                \<and> errors_Is e ErrMultipleFound \<and> \<not> errors_Is e ErrNotFound))
       \<and> (\<forall>server. survivors = [server] \<longrightarrow>
            getMachineByName cp ex machineName h = (Inr server, ListServers_call machineName # h))"
  using assms
  by (auto simp: getMachineByName_def searchTags_def hasOwnershipTags_def perform_def Let_def)

theorem getMachineByName_survivors_witness:
  "getMachineByName example_cp (listing_Executor [foreign_server, example_server ''srv-1'' ''ACTIVE''])
      ''machine-1'' []
   = (Inr (example_server ''srv-1'' ''ACTIVE''), [ListServers_call ''machine-1''])"
proof -
  let ?ex = "listing_Executor [foreign_server, example_server ''srv-1'' ''ACTIVE'']"
  have keys: "searchTags example_cp (Tags (Spec (Config ?ex)))
              = (''kubernetes.io-cluster-shoot'', ''kubernetes.io-role-node'')"
    by (simp add: listing_Executor_def example_spec_def example_searchTags)
  have listed: "ListServers (Compute ?ex) [] ''machine-1''
                = Inr [foreign_server, example_server ''srv-1'' ''ACTIVE'']"
    by (simp add: listing_Executor_def)
  have surv: "[example_server ''srv-1'' ''ACTIVE''] =
     filter (\<lambda>server. srv_Name server = ''machine-1''
        \<and> hasOwnershipTags (''kubernetes.io-cluster-shoot'', ''kubernetes.io-role-node'') server)
       [foreign_server, example_server ''srv-1'' ''ACTIVE'']"
    by (simp add: hasOwnershipTags_def foreign_server_def example_server_def example_tags_def)
  from getMachineByName_survivors [OF keys _ _ listed surv]
  show ?thesis by simp
qed

subsection \<open>Delete of an absent or ill-named machine\<close>

lemma getMachineByName_history:
  "snd (getMachineByName cp ex machineName h) = h
   \<or> snd (getMachineByName cp ex machineName h) = ListServers_call machineName # h"
  by (auto simp: getMachineByName_def perform_def Let_def split: prod.splits sum.splits)

lemma getMachineByProviderID_history:
  "snd (getMachineByProviderID cp ex providerID h) = h
   \<or> snd (getMachineByProviderID cp ex providerID h) = GetServer_call (DecodeProviderID providerID) # h"
  by (auto simp: getMachineByProviderID_def perform_def Let_def split: prod.splits sum.splits)

lemma locate_history:
  "snd (locate cp ex machineName providerID h)
     \<in> {h, ListServers_call machineName # h, GetServer_call (DecodeProviderID providerID) # h}"
  using getMachineByName_history [of cp ex machineName h]
    getMachineByProviderID_history [of cp ex providerID h]
  by (auto simp: locate_def)

text \<open>
  Claim C2. When the lookup of \<open>DeleteMachine\<close> (by name for an empty provider id, by
  provider id otherwise) ends in an error that is \<open>ErrNotFound\<close>, \<open>DeleteMachine\<close> returns
  no error. Its calls are those of the lookup, at most one listing or one query of the
  server: nothing is deleted and nothing is waited for.
\<close>

theorem DeleteMachine_absent:
  assumes "locate cp ex machineName providerID h = (Inl err, h')"
    and "errors_Is err ErrNotFound"
  shows "DeleteMachine cp ex machineName providerID h = Some (None, h')
       \<and> h' \<in> {h, ListServers_call machineName # h,
                 GetServer_call (DecodeProviderID providerID) # h}"
proof
  show "DeleteMachine cp ex machineName providerID h = Some (None, h')"
    using assms by (simp add: DeleteMachine_def locate_def)
  show "h' \<in> {h, ListServers_call machineName # h,
                 GetServer_call (DecodeProviderID providerID) # h}"
    using locate_history [of cp ex machineName providerID h] assms(1) by simp
qed

lemma Decode_example: "DecodeProviderID ''openstack:///eu-de-1/srv-1'' = ''srv-1''"
  by (simp add: DecodeProviderID_def)

lemma locate_absent_by_id:
  "locate example_cp absent_Executor ''machine-1'' ''openstack:///eu-de-1/srv-1'' []
   = (Inl (Errorf ''could not find server [ID=%q]: %w'' [''srv-1''] (Some ErrNotFound) None),
      [GetServer_call ''srv-1''])"
  by (simp add: locate_def StringPtr_def getMachineByProviderID_def Decode_example perform_def Let_def
      absent_Executor_def no_Compute_def notFound_def)

lemma locate_absent_by_name:
  "locate example_cp absent_Executor ''machine-1'' [] []
   = (Inl (Errorf ''failed to find server [Name=%q]: %w'' [''machine-1''] (Some ErrNotFound) None),
      [ListServers_call ''machine-1''])"
proof -
  have "searchTags example_cp (Tags (Spec (Config absent_Executor)))
        = (''kubernetes.io-cluster-shoot'', ''kubernetes.io-role-node'')"
    by (simp add: absent_Executor_def example_spec_def example_searchTags)
  then show ?thesis
    by (simp add: locate_def StringPtr_def getMachineByName_def searchTags_def perform_def
        absent_Executor_def no_Compute_def)
qed

theorem DeleteMachine_absent_witness:
  "DeleteMachine example_cp absent_Executor ''machine-1'' ''openstack:///eu-de-1/srv-1'' []
     = Some (None, [GetServer_call ''srv-1''])
   \<and> DeleteMachine example_cp absent_Executor ''machine-1'' [] []
     = Some (None, [ListServers_call ''machine-1''])"
  using DeleteMachine_absent [OF locate_absent_by_id] DeleteMachine_absent [OF locate_absent_by_name]
  by simp

text \<open>
  Claim C10. For a provider id that is not empty and from which no instance id can be
  decoded, \<open>DeleteMachine\<close> returns the error of the failed parse, which is not
  \<open>ErrNotFound\<close>, and makes no call.
\<close>

theorem DeleteMachine_malformed_providerID:
  assumes "\<not> isEmptyString (StringPtr providerID)"
    and "isEmptyString (StringPtr (DecodeProviderID providerID))"
  shows "DeleteMachine cp ex machineName providerID h
           = Some (Some (Errorf ''could not parse serverID from providerID %q'' [providerID]
                           None None), h)
       \<and> \<not> errors_Is (Errorf ''could not parse serverID from providerID %q'' [providerID] None None)
             ErrNotFound"
  using assms by (simp add: DeleteMachine_def getMachineByProviderID_def)

theorem DeleteMachine_malformed_providerID_witness:
  "DeleteMachine example_cp absent_Executor ''machine-1'' ''openstack:///eu-de-1/'' []
     = Some (Some (Errorf ''could not parse serverID from providerID %q''
                     [''openstack:///eu-de-1/''] None None), [])"
proof -
  have a: "\<not> isEmptyString (StringPtr ''openstack:///eu-de-1/'')"
    by (simp add: StringPtr_def)
  have b: "isEmptyString (StringPtr (DecodeProviderID ''openstack:///eu-de-1/''))"
    by (simp add: StringPtr_def DecodeProviderID_def)
  from DeleteMachine_malformed_providerID [OF a b] show ?thesis by simp
qed

subsection \<open>The status poller on scripted answers\<close>

lemma int64_in_range: "- (2 ^ 63) \<le> n \<Longrightarrow> n < 2 ^ 63 \<Longrightarrow> int64 n = n"
  by (simp add: int64_def)

lemma timeout_of_secs:
  "0 \<le> secs \<Longrightarrow> secs \<le> 9223372036 \<Longrightarrow> int64 (secs * Second) = secs * Second"
  by (rule int64_in_range) (simp_all add: Second_def)

lemma poll_ticks_done:
  "condition h = ((True, None), h1) \<Longrightarrow> poll_ticks ticks condition h = (None, h1)"
  by (cases ticks) simp_all

lemma poll_ticks_error:
  "condition h = ((ok, Some err), h1) \<Longrightarrow> poll_ticks ticks condition h = (Some err, h1)"
  by (cases ticks) simp_all

lemma poll_ticks_continue:
  "condition h = ((False, None), h1) \<Longrightarrow> 0 < ticks \<Longrightarrow>
   poll_ticks ticks condition h = poll_ticks (ticks - 1) condition h1"
  by (cases ticks) simp_all

lemma poll_ticks_timeout:
  "condition h = ((False, None), h1) \<Longrightarrow> poll_ticks 0 condition h = (Some ErrWaitTimeout, h1)"
  by simp

lemma poll_forever_done:
  "condition h = ((True, None), h1) \<Longrightarrow> poll_forever condition h = Some (None, h1)"
  by (subst poll_forever.simps) simp

lemma poll_forever_error:
  "condition h = ((ok, Some err), h1) \<Longrightarrow> poll_forever condition h = Some (Some err, h1)"
  by (subst poll_forever.simps) simp

lemma poll_forever_continue:
  "condition h = ((False, None), h1) \<Longrightarrow> poll_forever condition h = poll_forever condition h1"
  by (subst poll_forever.simps) simp

lemma wait_Poll_done:
  "condition h = ((True, None), h1) \<Longrightarrow> wait_Poll interval timeout condition h = Some (None, h1)"
  by (simp add: wait_Poll_def poll_forever_done poll_ticks_done)

lemma wait_Poll_error:
  "condition h = ((ok, Some err), h1) \<Longrightarrow>
   wait_Poll interval timeout condition h = Some (Some err, h1)"
  by (simp add: wait_Poll_def poll_forever_error poll_ticks_error)

text \<open>What one run of the condition of \<open>waitForStatus\<close> gives, by the answer of the provider.\<close>

lemma condition_not_found:
  assumes "GetServer (Compute ex) h serverID = Inl err" and "IsNotFoundError err"
    and "strSliceContains target ServerStatusDeleted"
  shows "waitForStatus_condition ex serverID pending target h
         = ((True, None), GetServer_call serverID # h)"
  using assms by (simp add: waitForStatus_condition_def perform_def)

lemma condition_target:
  assumes "GetServer (Compute ex) h serverID = Inr current"
    and "strSliceContains target (srv_Status current)"
  shows "waitForStatus_condition ex serverID pending target h
         = ((True, None), GetServer_call serverID # h)"
  using assms by (simp add: waitForStatus_condition_def perform_def)

lemma condition_pending:
  assumes "GetServer (Compute ex) h serverID = Inr current"
    and "\<not> strSliceContains target (srv_Status current)"
    and "pending = [] \<or> strSliceContains pending (srv_Status current)"
  shows "waitForStatus_condition ex serverID pending target h
         = ((False, None), GetServer_call serverID # h)"
  using assms by (auto simp: waitForStatus_condition_def perform_def)

lemma condition_error_status:
  assumes "GetServer (Compute ex) h serverID = Inr current"
    and "\<not> strSliceContains target (srv_Status current)"
    and "pending \<noteq> []" and "\<not> strSliceContains pending (srv_Status current)"
    and "srv_Status current = ServerStatusError"
  shows "waitForStatus_condition ex serverID pending target h
         = ((False, Some (Errorf ''%s, fault: %+v'' [srv_Fault current] None
                            (Some (Errorf ''server [ID=%q] reached unexpected status %q''
                                     [serverID, ServerStatusError] None None)))),
            GetServer_call serverID # h)"
  using assms by (simp add: waitForStatus_condition_def perform_def Let_def)

lemma waitForStatus_not_found:
  assumes "GetServer (Compute ex) h serverID = Inl err" and "IsNotFoundError err"
    and "strSliceContains target ServerStatusDeleted"
  shows "waitForStatus ex serverID pending target secs h
         = Some (None, GetServer_call serverID # h)"
  unfolding waitForStatus_def
  by (rule wait_Poll_done) (rule condition_not_found [OF assms])

lemma waitForStatus_build_build_active:
  assumes s1: "GetServer (Compute ex) h serverID = Inr s1" "srv_Status s1 = ServerStatusBuild"
    and s2: "GetServer (Compute ex) (GetServer_call serverID # h) serverID = Inr s2"
      "srv_Status s2 = ServerStatusBuild"
    and s3: "GetServer (Compute ex) (GetServer_call serverID # GetServer_call serverID # h)
               serverID = Inr s3" "srv_Status s3 = ServerStatusActive"
    and secs: "int64 (secs * Second) = 0 \<or> 2 * Second \<le> int64 (secs * Second)"
  shows "waitForStatus ex serverID [ServerStatusBuild] [ServerStatusActive] secs h
         = Some (None, GetServer_call serverID # GetServer_call serverID
                         # GetServer_call serverID # h)"
proof -
  let ?c = "waitForStatus_condition ex serverID [ServerStatusBuild] [ServerStatusActive]"
  let ?h1 = "GetServer_call serverID # h"
  let ?h2 = "GetServer_call serverID # ?h1"
  let ?h3 = "GetServer_call serverID # ?h2"
  have c1: "?c h = ((False, None), ?h1)"
    by (rule condition_pending [OF s1(1)])
      (simp_all add: s1(2) strSliceContains_def ServerStatusBuild_def ServerStatusActive_def)
  have c2: "?c ?h1 = ((False, None), ?h2)"
    by (rule condition_pending [OF s2(1)])
      (simp_all add: s2(2) strSliceContains_def ServerStatusBuild_def ServerStatusActive_def)
  have c3: "?c ?h2 = ((True, None), ?h3)"
    by (rule condition_target [OF s3(1)]) (simp add: s3(2) strSliceContains_def)
  from secs show ?thesis
  proof
    assume "int64 (secs * Second) = 0"
    then show ?thesis
      by (simp add: waitForStatus_def wait_Poll_def poll_forever_continue [of ?c h ?h1, OF c1]
          poll_forever_continue [of ?c ?h1 ?h2, OF c2] poll_forever_done [of ?c ?h2 ?h3, OF c3])
  next
    assume long: "2 * Second \<le> int64 (secs * Second)"
    define ticks where "ticks = nat (int64 (secs * Second) div Second)"
    have "2 \<le> int64 (secs * Second) div Second"
      using long by (simp add: Second_def)
    then have ticks: "0 < ticks" "0 < ticks - 1"
      by (simp_all add: ticks_def)
    have "poll_ticks ticks ?c h = (None, ?h3)"
      using ticks
      by (simp add: poll_ticks_continue [of ?c h ?h1, OF c1]
          poll_ticks_continue [of ?c ?h1 ?h2, OF c2] poll_ticks_done [of ?c ?h2 ?h3, OF c3])
    then show ?thesis
      using long by (simp add: waitForStatus_def wait_Poll_def ticks_def Second_def)
  qed
qed

lemma waitForStatus_build_error:
  assumes s1: "GetServer (Compute ex) h serverID = Inr s1" "srv_Status s1 = ServerStatusBuild"
    and s2: "GetServer (Compute ex) (GetServer_call serverID # h) serverID = Inr s2"
      "srv_Status s2 = ServerStatusError"
    and secs: "int64 (secs * Second) = 0 \<or> Second \<le> int64 (secs * Second)"
  shows "waitForStatus ex serverID [ServerStatusBuild] [ServerStatusActive] secs h
         = Some (Some (Errorf ''%s, fault: %+v'' [srv_Fault s2] None
                         (Some (Errorf ''server [ID=%q] reached unexpected status %q''
                                  [serverID, ServerStatusError] None None))),
                 GetServer_call serverID # GetServer_call serverID # h)"
proof -
  let ?c = "waitForStatus_condition ex serverID [ServerStatusBuild] [ServerStatusActive]"
  let ?h1 = "GetServer_call serverID # h"
  let ?h2 = "GetServer_call serverID # ?h1"
  let ?e = "Errorf ''%s, fault: %+v'' [srv_Fault s2] None
              (Some (Errorf ''server [ID=%q] reached unexpected status %q''
                       [serverID, ServerStatusError] None None))"
  have c1: "?c h = ((False, None), ?h1)"
    by (rule condition_pending [OF s1(1)])
      (simp_all add: s1(2) strSliceContains_def ServerStatusBuild_def ServerStatusActive_def)
  have c2: "?c ?h1 = ((False, Some ?e), ?h2)"
    by (rule condition_error_status [OF s2(1)])
      (simp_all add: s2(2) strSliceContains_def ServerStatusBuild_def ServerStatusActive_def
        ServerStatusError_def)
  from secs show ?thesis
  proof
    assume "int64 (secs * Second) = 0"
    then show ?thesis
      by (simp add: waitForStatus_def wait_Poll_def poll_forever_continue [of ?c h ?h1, OF c1]
          poll_forever_error [of ?c ?h1 False ?e ?h2, OF c2])
  next
    assume long: "Second \<le> int64 (secs * Second)"
    define ticks where "ticks = nat (int64 (secs * Second) div Second)"
    have "1 \<le> int64 (secs * Second) div Second"
      using long by (simp add: Second_def)
    then have ticks: "0 < ticks"
      by (simp add: ticks_def)
    have "poll_ticks ticks ?c h = (Some ?e, ?h2)"
      using ticks
      by (simp add: poll_ticks_continue [of ?c h ?h1, OF c1]
          poll_ticks_error [of ?c ?h1 False ?e ?h2, OF c2])
    then show ?thesis
      using long by (simp add: waitForStatus_def wait_Poll_def ticks_def Second_def)
  qed
qed

text \<open>
  From 9223372037 seconds on the deadline no longer fits the 64-bit nanosecond count
  of a duration and wraps to a negative one, on which \<open>wait.Poll\<close> runs the condition
  once: a server still in a pending state is then reported as timed out after one query.
\<close>

lemma waitForStatus_negative_deadline:
  assumes "GetServer (Compute ex) h serverID = Inr current"
    and "\<not> strSliceContains target (srv_Status current)"
    and "pending = [] \<or> strSliceContains pending (srv_Status current)"
    and "int64 (secs * Second) < 0"
  shows "waitForStatus ex serverID pending target secs h
         = Some (Some ErrWaitTimeout, GetServer_call serverID # h)"
  using assms(4) condition_pending [OF assms(1-3)]
  by (simp add: waitForStatus_def wait_Poll_def)

lemma waitForStatus_deadline_wraps:
  "waitForStatus (scripted_Executor [Inr (example_server ''srv-1'' ''BUILD''),
                                     Inr (example_server ''srv-1'' ''BUILD''),
                                     Inr (example_server ''srv-1'' ''ACTIVE'')] (Inl unavailable))
     ''srv-1'' [ServerStatusBuild] [ServerStatusActive] 9223372037 []
   = Some (Some ErrWaitTimeout, [GetServer_call ''srv-1''])"
  by (rule waitForStatus_negative_deadline [where current = "example_server ''srv-1'' ''BUILD''"])
    (simp_all add: scripted_Executor_def no_Compute_def example_server_def strSliceContains_def
      ServerStatusBuild_def ServerStatusActive_def int64_def Second_def)

text \<open>
  Claim C3. The poller runs one query per second up to its deadline, the 64-bit
  nanosecond count \<open>int64 (secs * Second)\<close>, where a count of zero is no deadline at all.
  For every provider, server id and history, with target ACTIVE and pending BUILD:

  \<^item> if the next three queries answer BUILD, BUILD, ACTIVE and the deadline is none or at
    least two seconds, the poller returns no error after exactly three queries;

  \<^item> if the next two queries answer BUILD, ERROR and the deadline is none or at least one
    second, it returns after the second query the unexpected-status error with the fault
    of the server printed into it, and makes no further query, whatever that query
    would have answered.

  For every deadline, every pending set and every target set that includes the deleted
  state, if the first query answers a not-found error, the poller returns no error after
  that one query.
\<close>

theorem waitForStatus_scripted:
  "(GetServer (Compute ex) h serverID = Inr s1 \<and> srv_Status s1 = ServerStatusBuild
      \<and> GetServer (Compute ex) (GetServer_call serverID # h) serverID = Inr s2
      \<and> srv_Status s2 = ServerStatusBuild
      \<and> GetServer (Compute ex) (GetServer_call serverID # GetServer_call serverID # h) serverID
          = Inr s3
      \<and> srv_Status s3 = ServerStatusActive
      \<and> (int64 (secs * Second) = 0 \<or> 2 * Second \<le> int64 (secs * Second))
    \<longrightarrow> waitForStatus ex serverID [ServerStatusBuild] [ServerStatusActive] secs h
        = Some (None, GetServer_call serverID # GetServer_call serverID
                        # GetServer_call serverID # h))
   \<and> (GetServer (Compute ex) h serverID = Inr s1 \<and> srv_Status s1 = ServerStatusBuild
      \<and> GetServer (Compute ex) (GetServer_call serverID # h) serverID = Inr failed
      \<and> srv_Status failed = ServerStatusError
      \<and> (int64 (secs * Second) = 0 \<or> Second \<le> int64 (secs * Second))
    \<longrightarrow> waitForStatus ex serverID [ServerStatusBuild] [ServerStatusActive] secs h
        = Some (Some (Errorf ''%s, fault: %+v'' [srv_Fault failed] None
                        (Some (Errorf ''server [ID=%q] reached unexpected status %q''
                                 [serverID, ServerStatusError] None None))),
                GetServer_call serverID # GetServer_call serverID # h))
   \<and> (GetServer (Compute ex) h serverID = Inl err \<and> IsNotFoundError err
      \<and> strSliceContains target ServerStatusDeleted
    \<longrightarrow> waitForStatus ex serverID pending target secs h
        = Some (None, GetServer_call serverID # h))"
  using waitForStatus_build_build_active [of ex h serverID s1 s2 s3 secs]
    waitForStatus_build_error [of ex h serverID s1 failed secs]
    waitForStatus_not_found [of ex h serverID err target pending secs]
  by blast

lemma scripted_answers:
  "GetServer (Compute (scripted_Executor script rest)) h serverID
   = (if count_list h (GetServer_call serverID) < length script
      then script ! count_list h (GetServer_call serverID) else rest)"
  by (simp add: scripted_Executor_def no_Compute_def Let_def)

theorem waitForStatus_scripted_witness:
  "(waitForStatus
           (scripted_Executor [Inr (example_server ''srv-1'' ''BUILD''),
                               Inr (example_server ''srv-1'' ''BUILD''),
                               Inr (example_server ''srv-1'' ''ACTIVE'')] (Inl unavailable))
           ''srv-1'' [ServerStatusBuild] [ServerStatusActive] 600 []
         = Some (None, [GetServer_call ''srv-1'', GetServer_call ''srv-1'',
                        GetServer_call ''srv-1'']))
   \<and> (waitForStatus
           (scripted_Executor [Inr (example_server ''srv-1'' ''BUILD''),
                               Inr ((example_server ''srv-1'' ''ERROR'')\<lparr>srv_Fault := ''No valid host''\<rparr>)]
              (Inr (example_server ''srv-1'' ''ACTIVE'')))
           ''srv-1'' [ServerStatusBuild] [ServerStatusActive] 600 []
         = Some (Some (Errorf ''%s, fault: %+v'' [''No valid host''] None
                         (Some (Errorf ''server [ID=%q] reached unexpected status %q''
                                  [''srv-1'', ''ERROR''] None None))),
                 [GetServer_call ''srv-1'', GetServer_call ''srv-1'']))
   \<and> (waitForStatus (scripted_Executor [] (Inl notFound))
           ''srv-1'' [ServerStatusBuild] [ServerStatusActive, ServerStatusDeleted] 600 []
         = Some (None, [GetServer_call ''srv-1'']))"
proof -
  have secs: "2 * Second \<le> int64 (600 * Second)" "Second \<le> int64 (600 * Second)"
    by (simp_all add: int64_def Second_def)
  have target: "strSliceContains [ServerStatusActive, ServerStatusDeleted] ServerStatusDeleted"
    by (simp add: strSliceContains_def)
  have nf: "IsNotFoundError notFound"
    by (simp add: notFound_def)
  show ?thesis
    using secs target nf
      waitForStatus_scripted
        [of "scripted_Executor [Inr (example_server ''srv-1'' ''BUILD''),
                                Inr (example_server ''srv-1'' ''BUILD''),
                                Inr (example_server ''srv-1'' ''ACTIVE'')] (Inl unavailable)"
          "[]" "''srv-1''" "example_server ''srv-1'' ''BUILD''"
          "example_server ''srv-1'' ''BUILD''" "example_server ''srv-1'' ''ACTIVE''" 600]
      waitForStatus_scripted
        [of "scripted_Executor [Inr (example_server ''srv-1'' ''BUILD''),
                                Inr ((example_server ''srv-1'' ''ERROR'')\<lparr>srv_Fault := ''No valid host''\<rparr>)]
               (Inr (example_server ''srv-1'' ''ACTIVE''))"
          "[]" "''srv-1''" "example_server ''srv-1'' ''BUILD''" _ _ 600
          "(example_server ''srv-1'' ''ERROR'')\<lparr>srv_Fault := ''No valid host''\<rparr>"]
      waitForStatus_scripted
        [of "scripted_Executor [] (Inl notFound)" "[]" "''srv-1''" _ _ _ 600 _ notFound
          "[ServerStatusActive, ServerStatusDeleted]" "[ServerStatusBuild]"]
    by (simp add: scripted_answers example_server_def ServerStatusBuild_def
        ServerStatusActive_def ServerStatusError_def)
qed

subsection \<open>Port cleanup after delete\<close>

lemma deletePort_history:
  "\<exists>calls. snd (deletePort ex machineName h) = calls @ PortIDFromName_call machineName # h"
  by (auto simp: deletePort_def perform_def split: sum.splits option.splits)

lemma deletePort_absent:
  assumes "PortIDFromName (Network ex) h machineName = Inl err" and "IsNotFoundError err"
  shows "deletePort ex machineName h = (None, PortIDFromName_call machineName # h)"
  using assms by (simp add: deletePort_def perform_def)

lemma deletePort_found:
  assumes "PortIDFromName (Network ex) h machineName = Inr portID"
  shows "deletePort ex machineName h =
           (DeletePort (Network ex) (PortIDFromName_call machineName # h) portID,
            DeletePort_call portID # PortIDFromName_call machineName # h)"
  using assms by (simp add: deletePort_def perform_def split: option.splits)

lemma DeleteMachine_after_wait:
  assumes "locate cp ex machineName providerID h = (Inr server, h1)"
    and "DeleteServer (Compute ex) h1 (srv_ID server) = None"
    and "waitForStatus ex (srv_ID server) [] [ServerStatusDeleted] 300
           (DeleteServer_call (srv_ID server) # h1) = Some (None, h3)"
  shows "DeleteMachine cp ex machineName providerID h =
           (if \<not> isEmptyString (SubnetID (Spec (Config ex)))
            then Some (deletePort ex machineName h3) else Some (None, h3))"
  using assms by (simp add: DeleteMachine_def locate_def perform_def)

text \<open>
  Claim C8. Let \<open>DeleteMachine\<close> have located the server, deleted it and waited without
  error for the deleted state, ending in the history \<open>h3\<close>. Without a configured subnet id
  it returns no error and makes no further call. With a configured subnet id it goes on
  with \<open>deletePort\<close>, whose first call looks up the port named after the machine. That
  cleanup returns no error, and deletes nothing, when the lookup answers not-found; when
  the lookup finds the port, it deletes that port and returns the outcome of the deletion.
\<close>

theorem DeleteMachine_port_cleanup:
  assumes "locate cp ex machineName providerID h = (Inr server, h1)"
    and "DeleteServer (Compute ex) h1 (srv_ID server) = None"
    and "waitForStatus ex (srv_ID server) [] [ServerStatusDeleted] 300
           (DeleteServer_call (srv_ID server) # h1) = Some (None, h3)"
  shows "(isEmptyString (SubnetID (Spec (Config ex))) \<longrightarrow>
            DeleteMachine cp ex machineName providerID h = Some (None, h3))
       \<and> (\<not> isEmptyString (SubnetID (Spec (Config ex))) \<longrightarrow>
            DeleteMachine cp ex machineName providerID h = Some (deletePort ex machineName h3)
            \<and> (\<exists>r calls. DeleteMachine cp ex machineName providerID h
                          = Some (r, calls @ PortIDFromName_call machineName # h3)))
       \<and> (\<forall>err. PortIDFromName (Network ex) h3 machineName = Inl err \<and> IsNotFoundError err \<longrightarrow>
            deletePort ex machineName h3 = (None, PortIDFromName_call machineName # h3))
       \<and> (\<forall>portID. PortIDFromName (Network ex) h3 machineName = Inr portID \<longrightarrow>
            deletePort ex machineName h3 =
              (DeletePort (Network ex) (PortIDFromName_call machineName # h3) portID,
               DeletePort_call portID # PortIDFromName_call machineName # h3))"
  using DeleteMachine_after_wait [OF assms] deletePort_history [of ex machineName h3]
    deletePort_absent [of ex h3 machineName] deletePort_found [of ex h3 machineName]
  by (cases "deletePort ex machineName h3") auto

lemma deleting_located:
  "locate example_cp (deleting_Executor spec) ''machine-1'' ''openstack:///eu-de-1/srv-1'' []
   = (Inr (example_server ''srv-1'' ''ACTIVE''), [GetServer_call ''srv-1''])" if "Tags spec = example_tags"
proof -
  have "searchTags example_cp (Tags (Spec (Config (deleting_Executor spec))))
        = (''kubernetes.io-cluster-shoot'', ''kubernetes.io-role-node'')"
    using that by (simp add: deleting_Executor_def example_searchTags)
  then show ?thesis
    by (simp add: locate_def StringPtr_def getMachineByProviderID_def Decode_example perform_def
        Let_def searchTags_def deleting_Executor_def no_Compute_def example_server_def
        example_tags_def)
qed

lemma deleting_waited:
  "waitForStatus (deleting_Executor spec) ''srv-1'' [] [ServerStatusDeleted] 300
     [DeleteServer_call ''srv-1'', GetServer_call ''srv-1'']
   = Some (None, [GetServer_call ''srv-1'', DeleteServer_call ''srv-1'', GetServer_call ''srv-1''])"
  by (rule waitForStatus_not_found [where err = notFound])
    (simp_all add: deleting_Executor_def no_Compute_def notFound_def strSliceContains_def)

theorem DeleteMachine_port_cleanup_witness:
  "DeleteMachine example_cp (deleting_Executor example_spec) ''machine-1''
     ''openstack:///eu-de-1/srv-1'' []
   = Some (None, [PortIDFromName_call ''machine-1'', GetServer_call ''srv-1'',
                  DeleteServer_call ''srv-1'', GetServer_call ''srv-1''])
   \<and> DeleteMachine example_cp (deleting_Executor (example_spec\<lparr>SubnetID := None\<rparr>)) ''machine-1''
     ''openstack:///eu-de-1/srv-1'' []
   = Some (None, [GetServer_call ''srv-1'', DeleteServer_call ''srv-1'',
                  GetServer_call ''srv-1''])"
proof -
  have tags: "Tags example_spec = example_tags" "Tags (example_spec\<lparr>SubnetID := None\<rparr>) = example_tags"
    by (simp_all add: example_spec_def)
  have del: "DeleteServer (Compute (deleting_Executor spec)) [GetServer_call ''srv-1'']
               (srv_ID (example_server ''srv-1'' ''ACTIVE'')) = None" for spec
    by (simp add: deleting_Executor_def no_Compute_def)
  have wait: "waitForStatus (deleting_Executor spec) (srv_ID (example_server ''srv-1'' ''ACTIVE''))
                [] [ServerStatusDeleted] 300
                [DeleteServer_call (srv_ID (example_server ''srv-1'' ''ACTIVE'')), GetServer_call ''srv-1'']
              = Some (None, [GetServer_call ''srv-1'', DeleteServer_call ''srv-1'',
                             GetServer_call ''srv-1''])"
    for spec
    using deleting_waited [of spec] by (simp add: example_server_def)
  have port: "PortIDFromName (Network (deleting_Executor example_spec))
                [GetServer_call ''srv-1'', DeleteServer_call ''srv-1'', GetServer_call ''srv-1'']
                ''machine-1'' = Inl notFound" "IsNotFoundError notFound"
    by (simp_all add: deleting_Executor_def no_Network_def notFound_def)
  have sub: "\<not> isEmptyString (SubnetID (Spec (Config (deleting_Executor example_spec))))"
    "isEmptyString (SubnetID (Spec (Config (deleting_Executor (example_spec\<lparr>SubnetID := None\<rparr>)))))"
    by (simp_all add: deleting_Executor_def example_spec_def)
  from DeleteMachine_port_cleanup [OF deleting_located [OF tags(1)] del wait]
    DeleteMachine_port_cleanup [OF deleting_located [OF tags(2)] del wait] port sub
  show ?thesis by simp
qed

subsection \<open>The network resolver with a network id and a subnet id\<close>

lemma resolved_Nil: "resolved ex h [] ids \<longleftrightarrow> ids = []"
  by (cases ids) simp_all

lemma resolved_Cons:
  "resolved ex h (sg # sgs) ids \<longleftrightarrow>
     (\<exists>sgid ids'. ids = sgid # ids' \<and> GroupIDFromName (Network ex) h sg = Inr sgid
        \<and> resolved ex (GroupIDFromName_call sg # h) sgs ids')"
  by (cases ids) simp_all

lemma resolved_length: "resolved ex h sgs ids \<Longrightarrow> length ids = length sgs"
  by (induction ex h sgs ids rule: resolved.induct) simp_all

lemma loop_Inr:
  "securityGroupIDs_loop ex sgs acc h = (Inr out, h') \<longleftrightarrow>
     (\<exists>ids. resolved ex h sgs ids \<and> out = acc @ ids \<and> h' = groupCalls sgs @ h)"
proof (induction sgs arbitrary: acc h)
  case Nil
  then show ?case by (auto simp: groupCalls_def resolved_Nil)
next
  case (Cons sg sgs)
  show ?case
  proof (cases "GroupIDFromName (Network ex) h sg")
    case (Inl err)
    then show ?thesis by (auto simp: perform_def resolved_Cons)
  next
    case (Inr sgid)
    have "securityGroupIDs_loop ex (sg # sgs) acc h
          = securityGroupIDs_loop ex sgs (acc @ [sgid]) (GroupIDFromName_call sg # h)"
      using Inr by (simp add: perform_def)
    moreover have "(\<exists>ids. resolved ex h (sg # sgs) ids \<and> out = acc @ ids \<and> h' = groupCalls (sg # sgs) @ h)
        \<longleftrightarrow> (\<exists>ids. resolved ex (GroupIDFromName_call sg # h) sgs ids \<and> out = (acc @ [sgid]) @ ids
                  \<and> h' = groupCalls sgs @ GroupIDFromName_call sg # h)"
      using Inr by (auto simp: groupCalls_def resolved_Cons)
    ultimately show ?thesis using Cons.IH [of "acc @ [sgid]" "GroupIDFromName_call sg # h"] by simp
  qed
qed

lemma loop_Inl:
  "securityGroupIDs_loop ex sgs acc h = (Inl err, h') \<Longrightarrow>
     \<exists>k<length sgs. h' = groupCalls (take (Suc k) sgs) @ h
        \<and> GroupIDFromName (Network ex) (groupCalls (take k sgs) @ h) (sgs ! k) = Inl err"
proof (induction sgs arbitrary: acc h)
  case Nil
  then show ?case by simp
next
  case (Cons sg sgs)
  show ?case
  proof (cases "GroupIDFromName (Network ex) h sg")
    case (Inl e)
    with Cons.prems have "e = err" "h' = GroupIDFromName_call sg # h"
      by (auto simp: perform_def)
    with Inl show ?thesis by (intro exI [of _ 0]) (simp add: groupCalls_def)
  next
    case (Inr sgid)
    with Cons.prems have "securityGroupIDs_loop ex sgs (acc @ [sgid]) (GroupIDFromName_call sg # h) = (Inl err, h')"
      by (simp add: perform_def)
    from Cons.IH [OF this] obtain k where k: "k < length sgs"
      "h' = groupCalls (take (Suc k) sgs) @ GroupIDFromName_call sg # h"
      "GroupIDFromName (Network ex) (groupCalls (take k sgs) @ GroupIDFromName_call sg # h) (sgs ! k) = Inl err"
      by blast
    then show ?thesis by (intro exI [of _ "Suc k"]) (simp add: groupCalls_def)
  qed
qed

lemma computeServerNetworks_path1:
  assumes "\<not> isEmptyString (StringPtr (NetworkID (Spec (Config ex))))"
    and "SubnetID (Spec (Config ex)) = Some subnet" and "\<not> isEmptyString (Some subnet)"
  shows "computeServerNetworks ex machineName h =
     (case GetSubnet (Network ex) h subnet of
        Some err \<Rightarrow> (Inl err, GetSubnet_call subnet # h)
      | None \<Rightarrow>
          (case securityGroupIDs_loop ex (SecurityGroups (Spec (Config ex))) []
                  (GetSubnet_call subnet # h) of
             (Inl err, h2) \<Rightarrow> (Inl err, h2)
           | (Inr ids, h2) \<Rightarrow>
               (case CreatePort (Network ex) h2 (portOpts ex machineName subnet ids) of
                  Inl err \<Rightarrow> (Inl err, CreatePort_call (portOpts ex machineName subnet ids) # h2)
                | Inr port \<Rightarrow>
                    (Inr [\<lparr>UUID = NetworkID (Spec (Config ex)), Port = port_ID port\<rparr>],
                     CreatePort_call (portOpts ex machineName subnet ids) # h2))))"
  using assms
  by (simp add: computeServerNetworks_def perform_def portOpts_def Let_def
      split: option.splits sum.splits prod.splits)

text \<open>
  Claim C4. Let a network id and a subnet id both be configured. Then
  \<open>computeServerNetworks\<close> succeeds exactly when the subnet is found, every configured
  security-group name resolves to an id, and the port is created with the options
  \<open>portOpts\<close> (bound to the subnet, allowing the pod-network CIDR, with the resolved ids
  as its security groups); its result is then the single attachment of the configured
  network and the id of that port, and its calls are the subnet query, the resolutions
  in order and the port creation. When it fails, either the subnet query failed and
  nothing else was called, or a security group did not resolve and only resolutions up
  to that one were called (no port was created), or the creation of the port itself
  failed. On every such failure \<open>CreateMachine\<close> returns the wrapped error without any
  further call, so no server is submitted.
\<close>

theorem computeServerNetworks_preallocated_port:
  assumes net: "\<not> isEmptyString (StringPtr (NetworkID (Spec (Config ex))))"
    and sub: "SubnetID (Spec (Config ex)) = Some subnet" "\<not> isEmptyString (Some subnet)"
    and sgs: "sgs = SecurityGroups (Spec (Config ex))"
  shows "(computeServerNetworks ex machineName h = (Inr nws, h') \<longleftrightarrow>
            (\<exists>ids port.
               GetSubnet (Network ex) h subnet = None
               \<and> resolved ex (GetSubnet_call subnet # h) sgs ids
               \<and> CreatePort (Network ex) (groupCalls sgs @ GetSubnet_call subnet # h)
                    (portOpts ex machineName subnet ids) = Inr port
               \<and> nws = [\<lparr>UUID = NetworkID (Spec (Config ex)), Port = port_ID port\<rparr>]
               \<and> h' = CreatePort_call (portOpts ex machineName subnet ids)
                        # groupCalls sgs @ GetSubnet_call subnet # h))
       \<and> (computeServerNetworks ex machineName h = (Inl err, h') \<longrightarrow>
            (GetSubnet (Network ex) h subnet = Some err \<and> h' = GetSubnet_call subnet # h)
            \<or> (\<exists>k<length sgs.
                  GroupIDFromName (Network ex) (groupCalls (take k sgs) @ GetSubnet_call subnet # h)
                    (sgs ! k) = Inl err
                  \<and> h' = groupCalls (take (Suc k) sgs) @ GetSubnet_call subnet # h)
            \<or> (\<exists>ids.
                  resolved ex (GetSubnet_call subnet # h) sgs ids
                  \<and> CreatePort (Network ex) (groupCalls sgs @ GetSubnet_call subnet # h)
                       (portOpts ex machineName subnet ids) = Inl err
                  \<and> h' = CreatePort_call (portOpts ex machineName subnet ids)
                           # groupCalls sgs @ GetSubnet_call subnet # h))
       \<and> (computeServerNetworks ex machineName h = (Inl err, h') \<longrightarrow>
            CreateMachine cp ex machineName userData h
              = Some (Inl (Errorf ''failed to resolve server networks: %w'' [] (Some err) None), h'))"
proof -
  note eq = computeServerNetworks_path1 [OF net sub, of machineName h]
  let ?h1 = "GetSubnet_call subnet # h"
  let ?csn = "computeServerNetworks ex machineName h"
  have create: "?csn = (Inl err, h') \<longrightarrow>
            CreateMachine cp ex machineName userData h
              = Some (Inl (Errorf ''failed to resolve server networks: %w'' [] (Some err) None), h')"
    by (simp add: CreateMachine_def)
  obtain r h2 where loop: "securityGroupIDs_loop ex sgs [] ?h1 = (r, h2)"
    by (cases "securityGroupIDs_loop ex sgs [] ?h1")
  consider (subnet) e where "GetSubnet (Network ex) h subnet = Some e"
    | (group) e where "GetSubnet (Network ex) h subnet = None" "r = Inl e"
    | (port) ids e where "GetSubnet (Network ex) h subnet = None" "r = Inr ids"
        "CreatePort (Network ex) h2 (portOpts ex machineName subnet ids) = Inl e"
    | (created) ids port where "GetSubnet (Network ex) h subnet = None" "r = Inr ids"
        "CreatePort (Network ex) h2 (portOpts ex machineName subnet ids) = Inr port"
    by (cases "GetSubnet (Network ex) h subnet"; cases r;
        cases "CreatePort (Network ex) h2 (portOpts ex machineName subnet (projr r))") auto
  then show ?thesis
  proof cases
    case subnet
    then have "?csn = (Inl e, ?h1)"
      using eq by simp
    with subnet create show ?thesis by auto
  next
    case group
    then have csn: "?csn = (Inl e, h2)"
      using eq loop sgs by simp
    from loop_Inl [of ex sgs "[]" ?h1 e h2] loop group(2)
    obtain k where k: "k < length sgs" "h2 = groupCalls (take (Suc k) sgs) @ ?h1"
      "GroupIDFromName (Network ex) (groupCalls (take k sgs) @ ?h1) (sgs ! k) = Inl e"
      by auto
    have second: "?csn = (Inl err, h') \<longrightarrow>
        (\<exists>k<length sgs.
            GroupIDFromName (Network ex) (groupCalls (take k sgs) @ ?h1) (sgs ! k) = Inl err
            \<and> h' = groupCalls (take (Suc k) sgs) @ ?h1)"
      using csn k by auto
    have first: "?csn \<noteq> (Inr nws, h')"
      using csn by simp
    have unres: "\<not> resolved ex ?h1 sgs ids" for ids
      using loop group(2) loop_Inr [of ex sgs "[]" ?h1 ids "groupCalls sgs @ ?h1"] by auto
    show ?thesis
      using first second unres create by blast
  next
    case port
    have res: "resolved ex ?h1 sgs ids" and h2: "h2 = groupCalls sgs @ ?h1"
      using loop port(2) loop_Inr [of ex sgs "[]" ?h1 ids h2] by auto
    have uniq: "ids' = ids" if "resolved ex ?h1 sgs ids'" for ids'
      using that loop port(2) loop_Inr [of ex sgs "[]" ?h1 ids' h2] h2 by auto
    have csn: "?csn = (Inl e, CreatePort_call (portOpts ex machineName subnet ids) # h2)"
      using eq loop sgs port by simp
    have first: "?csn \<noteq> (Inr nws, h')"
      using csn by simp
    have nofirst: "\<not> (\<exists>ids port.
               GetSubnet (Network ex) h subnet = None
               \<and> resolved ex ?h1 sgs ids
               \<and> CreatePort (Network ex) (groupCalls sgs @ ?h1)
                    (portOpts ex machineName subnet ids) = Inr port
               \<and> nws = [\<lparr>UUID = NetworkID (Spec (Config ex)), Port = port_ID port\<rparr>]
               \<and> h' = CreatePort_call (portOpts ex machineName subnet ids)
                        # groupCalls sgs @ ?h1)"
      using uniq port(3) h2 by auto
    have second: "?csn = (Inl err, h') \<longrightarrow>
        (\<exists>ids.
            resolved ex ?h1 sgs ids
            \<and> CreatePort (Network ex) (groupCalls sgs @ ?h1)
                 (portOpts ex machineName subnet ids) = Inl err
            \<and> h' = CreatePort_call (portOpts ex machineName subnet ids) # groupCalls sgs @ ?h1)"
      using csn res port(3) h2 by auto
    show ?thesis
      using first nofirst second create by blast
  next
    case created
    have res: "resolved ex ?h1 sgs ids" and h2: "h2 = groupCalls sgs @ ?h1"
      using loop created(2) loop_Inr [of ex sgs "[]" ?h1 ids h2] by auto
    have uniq: "ids' = ids" if "resolved ex ?h1 sgs ids'" for ids'
      using that loop created(2) loop_Inr [of ex sgs "[]" ?h1 ids' h2] h2 by auto
    have csn: "?csn = (Inr [\<lparr>UUID = NetworkID (Spec (Config ex)), Port = port_ID port\<rparr>],
                       CreatePort_call (portOpts ex machineName subnet ids) # h2)"
      using eq loop sgs created by simp
    have first: "?csn = (Inr nws, h') \<longleftrightarrow>
            (\<exists>ids port.
               GetSubnet (Network ex) h subnet = None
               \<and> resolved ex ?h1 sgs ids
               \<and> CreatePort (Network ex) (groupCalls sgs @ ?h1)
                    (portOpts ex machineName subnet ids) = Inr port
               \<and> nws = [\<lparr>UUID = NetworkID (Spec (Config ex)), Port = port_ID port\<rparr>]
               \<and> h' = CreatePort_call (portOpts ex machineName subnet ids)
                        # groupCalls sgs @ ?h1)"
    proof
      assume "?csn = (Inr nws, h')"
      then have "nws = [\<lparr>UUID = NetworkID (Spec (Config ex)), Port = port_ID port\<rparr>]"
        "h' = CreatePort_call (portOpts ex machineName subnet ids) # groupCalls sgs @ ?h1"
        using csn h2 by simp_all
      then show "\<exists>ids port.
               GetSubnet (Network ex) h subnet = None
               \<and> resolved ex ?h1 sgs ids
               \<and> CreatePort (Network ex) (groupCalls sgs @ ?h1)
                    (portOpts ex machineName subnet ids) = Inr port
               \<and> nws = [\<lparr>UUID = NetworkID (Spec (Config ex)), Port = port_ID port\<rparr>]
               \<and> h' = CreatePort_call (portOpts ex machineName subnet ids)
                        # groupCalls sgs @ ?h1"
        using created(1,3) res h2 by blast
    next
      assume "\<exists>ids port.
               GetSubnet (Network ex) h subnet = None
               \<and> resolved ex ?h1 sgs ids
               \<and> CreatePort (Network ex) (groupCalls sgs @ ?h1)
                    (portOpts ex machineName subnet ids) = Inr port
               \<and> nws = [\<lparr>UUID = NetworkID (Spec (Config ex)), Port = port_ID port\<rparr>]
               \<and> h' = CreatePort_call (portOpts ex machineName subnet ids)
                        # groupCalls sgs @ ?h1"
      then obtain ids' port' where a: "resolved ex ?h1 sgs ids'"
        "CreatePort (Network ex) (groupCalls sgs @ ?h1) (portOpts ex machineName subnet ids') = Inr port'"
        "nws = [\<lparr>UUID = NetworkID (Spec (Config ex)), Port = port_ID port'\<rparr>]"
        "h' = CreatePort_call (portOpts ex machineName subnet ids') # groupCalls sgs @ ?h1"
        by blast
      have "ids' = ids" using uniq a(1) by simp
      with a created(3) h2 have "port' = port" by simp
      with a csn h2 \<open>ids' = ids\<close> show "?csn = (Inr nws, h')" by simp
    qed
    have second: "?csn \<noteq> (Inl err, h')"
      using csn by simp
    show ?thesis
      using first second by blast
  qed
qed

theorem computeServerNetworks_preallocated_port_witness:
  "computeServerNetworks networking_Executor ''machine-1'' []
   = (Inr [\<lparr>UUID = ''net-1'', Port = ''port-1''\<rparr>],
      [CreatePort_call \<lparr>pc_Name = ''machine-1'', pc_NetworkID = ''net-1'',
                        pc_FixedIPs = [''subnet-1''],
                        pc_AllowedAddressPairs = [''100.96.0.0/11''],
                        pc_SecurityGroups = [''id-sg-a'', ''id-sg-b'']\<rparr>,
       GroupIDFromName_call ''sg-b'', GroupIDFromName_call ''sg-a'',
       GetSubnet_call ''subnet-1''])"
proof -
  let ?ex = networking_Executor
  have spec: "Spec (Config ?ex) = example_spec"
    by (simp add: networking_Executor_def)
  have net: "\<not> isEmptyString (StringPtr (NetworkID (Spec (Config ?ex))))"
    by (simp add: spec example_spec_def StringPtr_def)
  have sub: "SubnetID (Spec (Config ?ex)) = Some ''subnet-1''" "\<not> isEmptyString (Some ''subnet-1'')"
    by (simp_all add: spec example_spec_def)
  have sgs: "[''sg-a'', ''sg-b''] = SecurityGroups (Spec (Config ?ex))"
    by (simp add: spec example_spec_def)
  have opts: "portOpts ?ex ''machine-1'' ''subnet-1'' [''id-sg-a'', ''id-sg-b'']
      = \<lparr>pc_Name = ''machine-1'', pc_NetworkID = ''net-1'', pc_FixedIPs = [''subnet-1''],
         pc_AllowedAddressPairs = [''100.96.0.0/11''],
         pc_SecurityGroups = [''id-sg-a'', ''id-sg-b'']\<rparr>"
    by (simp add: portOpts_def spec example_spec_def)
  have calls: "groupCalls [''sg-a'', ''sg-b'']
      = [GroupIDFromName_call ''sg-b'', GroupIDFromName_call ''sg-a'']"
    by (simp add: groupCalls_def)
  have "\<exists>ids port.
          GetSubnet (Network ?ex) [] ''subnet-1'' = None
          \<and> resolved ?ex [GetSubnet_call ''subnet-1''] [''sg-a'', ''sg-b''] ids
          \<and> CreatePort (Network ?ex) (groupCalls [''sg-a'', ''sg-b''] @ [GetSubnet_call ''subnet-1''])
               (portOpts ?ex ''machine-1'' ''subnet-1'' ids) = Inr port
          \<and> [\<lparr>UUID = ''net-1'', Port = ''port-1''\<rparr>]
              = [\<lparr>UUID = NetworkID (Spec (Config ?ex)), Port = port_ID port\<rparr>]
          \<and> [CreatePort_call \<lparr>pc_Name = ''machine-1'', pc_NetworkID = ''net-1'',
                        pc_FixedIPs = [''subnet-1''],
                        pc_AllowedAddressPairs = [''100.96.0.0/11''],
                        pc_SecurityGroups = [''id-sg-a'', ''id-sg-b'']\<rparr>,
               GroupIDFromName_call ''sg-b'', GroupIDFromName_call ''sg-a'',
               GetSubnet_call ''subnet-1'']
              = CreatePort_call (portOpts ?ex ''machine-1'' ''subnet-1'' ids)
                  # groupCalls [''sg-a'', ''sg-b''] @ [GetSubnet_call ''subnet-1'']"
    by (intro exI [of _ "[''id-sg-a'', ''id-sg-b'']"]
        exI [of _ "\<lparr>port_ID = ''port-1'', port_NetworkID = ''net-1'',
                    port_AllowedAddressPairs = [''100.96.0.0/11'']\<rparr>"])
      (simp add: opts calls, simp add: networking_Executor_def no_Network_def example_spec_def)
  with computeServerNetworks_preallocated_port [OF net sub sgs, of "''machine-1''" "[]"
      "[\<lparr>UUID = ''net-1'', Port = ''port-1''\<rparr>]"]
  show ?thesis by blast
qed

subsection \<open>The provider id\<close>

lemma takeWhile_stop:
  "y \<notin> set xs \<Longrightarrow> takeWhile (\<lambda>c. c \<noteq> y) (xs @ y # ys) = xs"
  by (induction xs) auto

lemma takeWhile_no_slash:
  assumes "CHR ''/'' \<notin> set xs"
  shows "takeWhile (\<lambda>c. c \<noteq> CHR ''/'') (rev xs @ CHR ''/'' # ys) = rev xs"
  using assms takeWhile_stop [of "CHR ''/''" "rev xs" ys] by simp

lemma Decode_Encode:
  assumes "region \<noteq> []" and "serverID \<noteq> []" and "CHR ''/'' \<notin> set serverID"
  shows "DecodeProviderID (EncodeProviderID region serverID) = serverID"
proof -
  let ?rest = "region @ CHR ''/'' # serverID"
  have enc: "EncodeProviderID region serverID = ''openstack:///'' @ ?rest"
    by (simp add: EncodeProviderID_def)
  have rest: "drop (length ''openstack:///'') (''openstack:///'' @ ?rest) = ?rest"
    by simp
  have sid: "rev (takeWhile (\<lambda>c. c \<noteq> CHR ''/'') (rev ?rest)) = serverID"
    using takeWhile_no_slash [OF assms(3), of "rev region"] by simp
  have reg: "take (length ?rest - length serverID - 1) ?rest = region"
    by simp
  have pre: "prefix ''openstack:///'' (''openstack:///'' @ ?rest)"
    by (rule prefixI) simp
  show ?thesis
    unfolding enc DecodeProviderID_def Let_def rest sid reg
    using assms pre by simp
qed

lemma Decode_shape:
  assumes "DecodeProviderID providerID \<noteq> []"
  shows "\<exists>region serverID. region \<noteq> [] \<and> serverID \<noteq> []
           \<and> providerID = EncodeProviderID region serverID"
proof -
  define rest where "rest = drop (length ''openstack:///'') providerID"
  define sid where "sid = rev (takeWhile (\<lambda>c. c \<noteq> CHR ''/'') (rev rest))"
  define region where "region = take (length rest - length sid - 1) rest"
  have dec: "DecodeProviderID providerID =
      (if prefix ''openstack:///'' providerID then
         (if CHR ''/'' \<in> set rest \<and> region \<noteq> [] \<and> sid \<noteq> [] then sid else [])
       else [])"
    by (simp only: DecodeProviderID_def Let_def rest_def sid_def region_def)
  from assms dec have pre: "prefix ''openstack:///'' providerID"
    and slash: "CHR ''/'' \<in> set rest" and region: "region \<noteq> []" and sid: "sid \<noteq> []"
    by (auto split: if_splits)
  from pre have whole: "providerID = ''openstack:///'' @ rest"
    unfolding rest_def by (auto simp: prefix_def)
  let ?P = "\<lambda>c. c \<noteq> CHR ''/''"
  have dw: "dropWhile ?P (rev rest) \<noteq> []"
    using slash by (simp add: dropWhile_eq_Nil_conv)
  then obtain c tl where ctl: "dropWhile ?P (rev rest) = c # tl"
    by (cases "dropWhile ?P (rev rest)") auto
  have "\<not> ?P (hd (dropWhile ?P (rev rest)))"
    using dw by (rule hd_dropWhile)
  then have c: "c = CHR ''/''"
    using ctl by simp
  have "rev rest = takeWhile ?P (rev rest) @ dropWhile ?P (rev rest)"
    by simp
  then have "rev rest = rev sid @ CHR ''/'' # tl"
    using ctl c by (simp add: sid_def)
  then have "rev (rev rest) = rev (rev sid @ CHR ''/'' # tl)"
    by simp
  then have split: "rest = rev tl @ CHR ''/'' # sid"
    by simp
  then have "region = rev tl"
    by (simp add: region_def)
  with split whole have "providerID = EncodeProviderID region sid"
    by (simp add: EncodeProviderID_def)
  with region sid show ?thesis by blast
qed

text \<open>
  Claim C9, as amended. Decoding the encoding of a region and an instance id gives the
  instance id back whenever both are non-empty and the instance id contains no \<open>/\<close>; and
  decoding a string that is not the encoding of a non-empty region and a non-empty
  instance id gives the empty id.
\<close>

theorem ProviderID_round_trip:
  "(region \<noteq> [] \<and> serverID \<noteq> [] \<and> CHR ''/'' \<notin> set serverID \<longrightarrow>
      DecodeProviderID (EncodeProviderID region serverID) = serverID)
   \<and> ((\<forall>r s. r \<noteq> [] \<and> s \<noteq> [] \<longrightarrow> providerID \<noteq> EncodeProviderID r s) \<longrightarrow>
        DecodeProviderID providerID = [])"
  using Decode_Encode [of region serverID] Decode_shape [of providerID] by blast

theorem ProviderID_round_trip_witness:
  "DecodeProviderID (EncodeProviderID ''eu-de-1'' ''4f7e1c6a-0b52'') = ''4f7e1c6a-0b52''
   \<and> DecodeProviderID ''eu-de-1/4f7e1c6a-0b52'' = []"
proof -
  have "\<forall>r s. r \<noteq> [] \<and> s \<noteq> [] \<longrightarrow> ''eu-de-1/4f7e1c6a-0b52'' \<noteq> EncodeProviderID r s"
    by (simp add: EncodeProviderID_def)
  with ProviderID_round_trip [of "''eu-de-1''" "''4f7e1c6a-0b52''" "''eu-de-1/4f7e1c6a-0b52''"]
  show ?thesis by simp
qed

text \<open>
  Claim C9 as stated fails for an instance id with a \<open>/\<close> in it: the region \<open>eu\<close> with the
  id \<open>a/b\<close> and the region \<open>eu/a\<close> with the id \<open>b\<close> have the same encoding, so that no decoder
  gives both ids back; the decoder modelled here answers \<open>b\<close>.
\<close>

theorem ProviderID_round_trip_fails:
  "''eu'' \<noteq> [] \<and> ''a/b'' \<noteq> []
   \<and> DecodeProviderID (EncodeProviderID ''eu'' ''a/b'') \<noteq> ''a/b''
   \<and> EncodeProviderID ''eu'' ''a/b'' = EncodeProviderID ''eu/a'' ''b''"
  by (simp add: EncodeProviderID_def DecodeProviderID_def)

subsection \<open>Rollback of a failed create\<close>

lemma mentions_refl: "mentions e e"
  by (cases "(e, e)" rule: mentions.cases) simp_all

lemma errors_Is_refl: "errors_Is e e"
  by (cases "(e, e)" rule: errors_Is.cases) simp_all

lemma deletions_append: "deletions (calls @ h) = deletions calls + deletions h"
  by (simp add: deletions_def)

lemma deletions_queries: "deletions (replicate n (GetServer_call serverID)) = 0"
  by (simp add: deletions_def)

lemma condition_history:
  "snd (waitForStatus_condition ex serverID pending target h) = GetServer_call serverID # h"
  by (simp add: waitForStatus_condition_def perform_def Let_def split: sum.splits)

lemma poll_ticks_history:
  "\<exists>n. snd (poll_ticks ticks (waitForStatus_condition ex serverID pending target) h)
         = replicate n (GetServer_call serverID) @ h"
proof (induction ticks arbitrary: h)
  case 0
  obtain d eo where c: "waitForStatus_condition ex serverID pending target h
      = ((d, eo), GetServer_call serverID # h)"
    using condition_history [of ex serverID pending target h]
    by (cases "waitForStatus_condition ex serverID pending target h") auto
  show ?case
    using c by (intro exI [of _ "Suc 0"]) (cases eo; cases d; simp)
next
  case (Suc ticks)
  obtain d eo where c: "waitForStatus_condition ex serverID pending target h
      = ((d, eo), GetServer_call serverID # h)"
    using condition_history [of ex serverID pending target h]
    by (cases "waitForStatus_condition ex serverID pending target h") auto
  show ?case
  proof (cases "eo = None \<and> \<not> d")
    case True
    from Suc.IH [of "GetServer_call serverID # h"] obtain n where
      "snd (poll_ticks ticks (waitForStatus_condition ex serverID pending target)
              (GetServer_call serverID # h))
       = replicate n (GetServer_call serverID) @ GetServer_call serverID # h"
      by blast
    then show ?thesis
      using c True by (intro exI [of _ "Suc n"]) (simp add: replicate_app_Cons_same)
  next
    case False
    then show ?thesis
      using c by (intro exI [of _ "Suc 0"]) (cases eo; cases d; simp)
  qed
qed

text \<open>
  A wait with a deadline returns: \<open>waitForStatus\<close> can run forever only when the 64-bit
  nanosecond count of its deadline is zero, which it is for neither of the deadlines in
  the code, 300 and 600 seconds.
\<close>

lemma waitForStatus_returns:
  assumes "int64 (secs * Second) \<noteq> 0"
  shows "\<exists>r n. waitForStatus ex serverID pending target secs h
                 = Some (r, replicate n (GetServer_call serverID) @ h)"
proof -
  define ticks where
    "ticks = (if int64 (secs * Second) < 0 then 0 else nat (int64 (secs * Second) div Second))"
  have w: "waitForStatus ex serverID pending target secs h
      = Some (poll_ticks ticks (waitForStatus_condition ex serverID pending target) h)"
    using assms by (simp add: waitForStatus_def wait_Poll_def ticks_def)
  obtain n where
    "snd (poll_ticks ticks (waitForStatus_condition ex serverID pending target) h)
     = replicate n (GetServer_call serverID) @ h"
    using poll_ticks_history by blast
  then show ?thesis
    unfolding w
    by (cases "poll_ticks ticks (waitForStatus_condition ex serverID pending target) h") auto
qed

lemma deadline_300: "int64 (300 * Second) \<noteq> 0"
  by (simp add: int64_def Second_def)

lemma deletePort_calls:
  "\<exists>calls. snd (deletePort ex machineName h) = calls @ h \<and> deletions calls = 0"
proof -
  have "snd (deletePort ex machineName h) = [PortIDFromName_call machineName] @ h
      \<or> (\<exists>portID. snd (deletePort ex machineName h)
            = [DeletePort_call portID, PortIDFromName_call machineName] @ h)"
    by (auto simp: deletePort_def perform_def split: sum.splits option.splits)
  then show ?thesis
  proof
    assume "snd (deletePort ex machineName h) = [PortIDFromName_call machineName] @ h"
    then show ?thesis
      by (intro exI [of _ "[PortIDFromName_call machineName]"]) (simp add: deletions_def)
  next
    assume "\<exists>portID. snd (deletePort ex machineName h)
              = [DeletePort_call portID, PortIDFromName_call machineName] @ h"
    then obtain portID where "snd (deletePort ex machineName h)
        = [DeletePort_call portID, PortIDFromName_call machineName] @ h"
      by blast
    then show ?thesis
      by (intro exI [of _ "[DeletePort_call portID, PortIDFromName_call machineName]"])
        (simp add: deletions_def)
  qed
qed

lemma Encode_not_empty: "\<not> isEmptyString (StringPtr (EncodeProviderID region serverID))"
  by (simp add: EncodeProviderID_def StringPtr_def)

lemma getMachineByProviderID_found:
  assumes "getMachineByProviderID cp ex providerID h = (Inr found, hl)"
  shows "GetServer (Compute ex) h (DecodeProviderID providerID) = Inr found
       \<and> hl = GetServer_call (DecodeProviderID providerID) # h
       \<and> hasOwnershipTags (searchTags cp (Tags (Spec (Config ex)))) found"
  using assms
  by (auto simp: getMachineByProviderID_def perform_def Let_def hasOwnershipTags_def
      searchTags_def split: if_splits sum.splits prod.splits)

lemma getMachineByProviderID_failed:
  assumes "getMachineByProviderID cp ex providerID h = (Inl err, hl)"
  shows "hl = h \<or> hl = GetServer_call (DecodeProviderID providerID) # h"
  using assms getMachineByProviderID_history [of cp ex providerID h] by auto

text \<open>
  The calls of \<open>DeleteMachine\<close> on a provider id that is not empty. When the lookup finds a
  server, the next call deletes the server of the id found, and no later call deletes a
  server; when the lookup fails, there is no call after it.
\<close>

lemma DeleteMachine_found:
  assumes pid: "\<not> isEmptyString (StringPtr providerID)"
    and found: "getMachineByProviderID cp ex providerID h = (Inr found, hl)"
  shows "\<exists>r calls. DeleteMachine cp ex machineName providerID h
           = Some (r, calls @ DeleteServer_call (srv_ID found)
                        # GetServer_call (DecodeProviderID providerID) # h)
         \<and> deletions calls = 0"
proof -
  let ?h2 = "DeleteServer_call (srv_ID found) # hl"
  have hl: "hl = GetServer_call (DecodeProviderID providerID) # h"
    using getMachineByProviderID_found [OF found] by simp
  show ?thesis
  proof (cases "DeleteServer (Compute ex) hl (srv_ID found)")
    case (Some err)
    then have "DeleteMachine cp ex machineName providerID h = Some (Some err, [] @ ?h2)"
      using pid found by (simp add: DeleteMachine_def perform_def)
    then show ?thesis
      unfolding hl by (intro exI [of _ "Some err"] exI [of _ "[]"]) (simp add: deletions_def)
  next
    case None
    obtain w n where w: "waitForStatus ex (srv_ID found) [] [ServerStatusDeleted] 300 ?h2
        = Some (w, replicate n (GetServer_call (srv_ID found)) @ ?h2)"
      using waitForStatus_returns [OF deadline_300] by blast
    let ?h3 = "replicate n (GetServer_call (srv_ID found)) @ ?h2"
    show ?thesis
    proof (cases "w = None \<and> \<not> isEmptyString (SubnetID (Spec (Config ex)))")
      case True
      obtain calls where calls: "snd (deletePort ex machineName ?h3) = calls @ ?h3"
        "deletions calls = 0"
        using deletePort_calls by blast
      have "DeleteMachine cp ex machineName providerID h = Some (deletePort ex machineName ?h3)"
        using pid found None w True by (simp add: DeleteMachine_def perform_def)
      then have "DeleteMachine cp ex machineName providerID h
          = Some (fst (deletePort ex machineName ?h3),
                  (calls @ replicate n (GetServer_call (srv_ID found))) @ ?h2)"
        using calls(1) by (cases "deletePort ex machineName ?h3") simp
      moreover have "deletions (calls @ replicate n (GetServer_call (srv_ID found))) = 0"
        using calls(2) by (simp add: deletions_append deletions_queries)
      ultimately show ?thesis
        unfolding hl by blast
    next
      case False
      have "\<exists>r. DeleteMachine cp ex machineName providerID h = Some (r, ?h3)"
        using pid found None w False
        by (cases w) (auto simp: DeleteMachine_def perform_def)
      then show ?thesis
        unfolding hl using deletions_queries [of n "srv_ID found"] by blast
    qed
  qed
qed

lemma DeleteMachine_failed:
  assumes pid: "\<not> isEmptyString (StringPtr providerID)"
    and failed: "getMachineByProviderID cp ex providerID h = (Inl err, hl)"
  shows "DeleteMachine cp ex machineName providerID h
         = Some (if errors_Is err ErrNotFound then None else Some err, hl)"
  using assms by (simp add: DeleteMachine_def)

text \<open>
  Claim C5, as amended. Let the networks be resolved and the server submitted, and let the
  create then fail with \<open>e\<close>, either in the wait for ACTIVE or in the patch of the ports;
  \<open>orig\<close> is the error \<open>CreateMachine\<close> builds from \<open>e\<close>, and \<open>pid\<close> the provider id encoding
  the id of the created server. Then \<open>CreateMachine\<close> runs \<open>DeleteMachine\<close> once, on \<open>pid\<close>;
  that run returns, and \<open>CreateMachine\<close> makes no call after it. The run looks the server
  up under the id decoded from \<open>pid\<close>, which is the id of the created server whenever the
  region and the id are not empty and the id has no slash.

  \<^item> When the lookup finds a server (one carrying both ownership tags), the call after
    the lookup deletes the server of the id found, and it is the only deletion of the
    run.

  \<^item> When the lookup fails, the run ends with the lookup and deletes nothing; the
    rollback then counts as succeeded if the failure is \<open>ErrNotFound\<close> and as failed with
    the error of the lookup otherwise.

  \<open>CreateMachine\<close> returns an error in every case: \<open>orig\<close> itself when the rollback
  succeeds, and when the rollback fails with \<open>errIn\<close> an error that wraps \<open>errIn\<close> and
  prints \<open>orig\<close>. In both cases the returned error mentions \<open>orig\<close> and \<open>e\<close>.
\<close>

theorem CreateMachine_rollback:
  assumes nets: "computeServerNetworks ex machineName h = (Inr nws, h1)"
    and deployed: "deployServer ex machineName userData nws h1 = (Inr server, h2)"
    and failed:
      "(waitForStatus ex (srv_ID server) [ServerStatusBuild] [ServerStatusActive] 600 h2
          = Some (Some e, h3)
        \<and> orig = Errorf ''error waiting for server [ID=%q] to reach target status: %w''
                   [srv_ID server] (Some e) None)
       \<or> (\<exists>hw. waitForStatus ex (srv_ID server) [ServerStatusBuild] [ServerStatusActive] 600 h2
                   = Some (None, hw)
               \<and> patchServerPortsForPodNetwork ex (srv_ID server) hw = (Some e, h3)
               \<and> orig = Errorf ''failed to patch server [ID=%q] ports: %s''
                          [srv_ID server] None (Some e))"
    and pid: "pid = EncodeProviderID (Region (Spec (Config ex))) (srv_ID server)"
  shows "\<exists>r h4 E.
           DeleteMachine cp ex machineName pid h3 = Some (r, h4)
           \<and> CreateMachine cp ex machineName userData h = Some (Inl E, h4)
           \<and> (r = None \<longrightarrow> E = orig)
           \<and> (\<forall>errIn. r = Some errIn \<longrightarrow>
                 E = Errorf ''error deleting server [ID=%q] after unsuccessful creation attempt: %w. Original error: %v''
                       [srv_ID server] (Some errIn) (Some orig)
                 \<and> mentions E errIn \<and> errors_Is E errIn)
           \<and> mentions E orig \<and> mentions E e
           \<and> (\<forall>found hl. getMachineByProviderID cp ex pid h3 = (Inr found, hl) \<longrightarrow>
                 GetServer (Compute ex) h3 (DecodeProviderID pid) = Inr found
                 \<and> hasOwnershipTags (searchTags cp (Tags (Spec (Config ex)))) found
                 \<and> (\<exists>calls. h4 = calls @ DeleteServer_call (srv_ID found)
                                   # GetServer_call (DecodeProviderID pid) # h3
                            \<and> deletions calls = 0))
           \<and> (\<forall>err hl. getMachineByProviderID cp ex pid h3 = (Inl err, hl) \<longrightarrow>
                 h4 = hl \<and> (hl = h3 \<or> hl = GetServer_call (DecodeProviderID pid) # h3)
                 \<and> r = (if errors_Is err ErrNotFound then None else Some err))
           \<and> (Region (Spec (Config ex)) \<noteq> [] \<and> srv_ID server \<noteq> []
                \<and> CHR ''/'' \<notin> set (srv_ID server) \<longrightarrow>
                 DecodeProviderID pid = srv_ID server)"
proof -
  let ?lookup = "getMachineByProviderID cp ex pid h3"
  have me: "mentions orig e"
    using failed mentions_refl [of e] by auto
  have create: "CreateMachine cp ex machineName userData h
      = (case deleteOnFail cp ex machineName pid server orig h3 of
           None \<Rightarrow> None | Some (err', h4) \<Rightarrow> Some (Inl err', h4))"
    using nets deployed failed pid
    by (auto simp: CreateMachine_def Let_def)
  have dec: "Region (Spec (Config ex)) \<noteq> [] \<and> srv_ID server \<noteq> []
                \<and> CHR ''/'' \<notin> set (srv_ID server) \<longrightarrow>
             DecodeProviderID pid = srv_ID server"
    unfolding pid using Decode_Encode by blast
  have ne: "\<not> isEmptyString (StringPtr pid)"
    unfolding pid by (rule Encode_not_empty)
  obtain l hl where l: "?lookup = (l, hl)"
    by (cases ?lookup)
  have "\<exists>r h4. DeleteMachine cp ex machineName pid h3 = Some (r, h4)
          \<and> (\<forall>found hl. ?lookup = (Inr found, hl) \<longrightarrow>
                 GetServer (Compute ex) h3 (DecodeProviderID pid) = Inr found
                 \<and> hasOwnershipTags (searchTags cp (Tags (Spec (Config ex)))) found
                 \<and> (\<exists>calls. h4 = calls @ DeleteServer_call (srv_ID found)
                                   # GetServer_call (DecodeProviderID pid) # h3
                            \<and> deletions calls = 0))
          \<and> (\<forall>err hl. ?lookup = (Inl err, hl) \<longrightarrow>
                 h4 = hl \<and> (hl = h3 \<or> hl = GetServer_call (DecodeProviderID pid) # h3)
                 \<and> r = (if errors_Is err ErrNotFound then None else Some err))"
  proof (cases l)
    case (Inl err)
    have "DeleteMachine cp ex machineName pid h3
          = Some (if errors_Is err ErrNotFound then None else Some err, hl)"
      using DeleteMachine_failed [OF ne] l Inl by simp
    moreover have "hl = h3 \<or> hl = GetServer_call (DecodeProviderID pid) # h3"
      using getMachineByProviderID_failed l Inl by simp
    ultimately show ?thesis
      using l Inl by simp
  next
    case (Inr found)
    then have found: "?lookup = (Inr found, hl)"
      using l by simp
    obtain r calls where
      "DeleteMachine cp ex machineName pid h3
         = Some (r, calls @ DeleteServer_call (srv_ID found)
                      # GetServer_call (DecodeProviderID pid) # h3)"
      "deletions calls = 0"
      using DeleteMachine_found [OF ne found] by blast
    then show ?thesis
      using found getMachineByProviderID_found [OF found] by auto
  qed
  then obtain r h4 where del: "DeleteMachine cp ex machineName pid h3 = Some (r, h4)"
    and found: "\<forall>found hl. ?lookup = (Inr found, hl) \<longrightarrow>
                 GetServer (Compute ex) h3 (DecodeProviderID pid) = Inr found
                 \<and> hasOwnershipTags (searchTags cp (Tags (Spec (Config ex)))) found
                 \<and> (\<exists>calls. h4 = calls @ DeleteServer_call (srv_ID found)
                                   # GetServer_call (DecodeProviderID pid) # h3
                            \<and> deletions calls = 0)"
    and lost: "\<forall>err hl. ?lookup = (Inl err, hl) \<longrightarrow>
                 h4 = hl \<and> (hl = h3 \<or> hl = GetServer_call (DecodeProviderID pid) # h3)
                 \<and> r = (if errors_Is err ErrNotFound then None else Some err)"
    by blast
  show ?thesis
  proof (cases r)
    case None
    then have "deleteOnFail cp ex machineName pid server orig h3 = Some (orig, h4)"
      using del by (simp add: deleteOnFail_def)
    then have "CreateMachine cp ex machineName userData h = Some (Inl orig, h4)"
      using create by simp
    then show ?thesis
      using del None me mentions_refl [of orig] found lost dec
      by (intro exI [of _ r] exI [of _ h4] exI [of _ orig]) simp
  next
    case (Some errIn)
    let ?E = "Errorf ''error deleting server [ID=%q] after unsuccessful creation attempt: %w. Original error: %v''
                [srv_ID server] (Some errIn) (Some orig)"
    have "deleteOnFail cp ex machineName pid server orig h3 = Some (?E, h4)"
      using del Some by (simp add: deleteOnFail_def)
    then have cm: "CreateMachine cp ex machineName userData h = Some (Inl ?E, h4)"
      using create by simp
    have E: "mentions ?E errIn" "errors_Is ?E errIn" "mentions ?E orig" "mentions ?E e"
      using mentions_refl [of errIn] errors_Is_refl [of errIn] mentions_refl [of orig] me
      by simp_all
    show ?thesis
      using del cm Some E found lost dec
      by (intro exI [of _ r] exI [of _ h4] exI [of _ ?E]) simp
  qed
qed

lemma rollback_nets:
  "computeServerNetworks rollback_Executor ''machine-1'' []
   = (Inr [\<lparr>UUID = ''net-1'', Port = []\<rparr>], [])"
  by (simp add: computeServerNetworks_def rollback_Executor_def example_spec_def StringPtr_def)

lemma rollback_deployed:
  "\<exists>opts. deployServer rollback_Executor ''machine-1'' ''user-data''
            [\<lparr>UUID = ''net-1'', Port = []\<rparr>] []
          = (Inr (example_server ''srv-1'' ''BUILD''),
             [CreateServer_call opts, FlavorIDFromName_call ''m1.large''])"
  by (simp add: deployServer_def rollback_Executor_def example_spec_def no_Compute_def
      perform_def Let_def)

lemma rollback_waited:
  "waitForStatus rollback_Executor ''srv-1'' [ServerStatusBuild] [ServerStatusActive] 600 h
   = Some (Some (Errorf ''%s, fault: %+v'' [''No valid host''] None
                   (Some (Errorf ''server [ID=%q] reached unexpected status %q''
                            [''srv-1'', ''ERROR''] None None))),
           GetServer_call ''srv-1'' # h)"
proof -
  have "waitForStatus_condition rollback_Executor ''srv-1'' [ServerStatusBuild]
          [ServerStatusActive] h
        = ((False, Some (Errorf ''%s, fault: %+v'' [''No valid host''] None
                           (Some (Errorf ''server [ID=%q] reached unexpected status %q''
                                    [''srv-1'', ''ERROR''] None None)))),
           GetServer_call ''srv-1'' # h)"
    by (simp add: waitForStatus_condition_def perform_def rollback_Executor_def
        no_Compute_def example_server_def strSliceContains_def ServerStatusBuild_def
        ServerStatusActive_def ServerStatusError_def)
  then show ?thesis
    unfolding waitForStatus_def by (rule wait_Poll_error)
qed

lemma rollback_deleted:
  "DeleteMachine example_cp rollback_Executor ''machine-1''
     (EncodeProviderID ''eu-de-1'' ''srv-1'') h
   = Some (Some unavailable, DeleteServer_call ''srv-1'' # GetServer_call ''srv-1'' # h)"
proof -
  have "searchTags example_cp (Tags (Spec (Config rollback_Executor)))
        = (''kubernetes.io-cluster-shoot'', ''kubernetes.io-role-node'')"
    by (simp add: rollback_Executor_def example_spec_def example_searchTags)
  then show ?thesis
    by (simp add: DeleteMachine_def EncodeProviderID_def StringPtr_def getMachineByProviderID_def
        Decode_example perform_def Let_def searchTags_def rollback_Executor_def no_Compute_def
        example_server_def example_tags_def unavailable_def)
qed

theorem CreateMachine_rollback_witness:
  "map_option fst (CreateMachine example_cp rollback_Executor ''machine-1'' ''user-data'' [])
   = Some (Inl (Errorf ''error deleting server [ID=%q] after unsuccessful creation attempt: %w. Original error: %v''
                  [''srv-1''] (Some unavailable)
                  (Some (Errorf ''error waiting for server [ID=%q] to reach target status: %w''
                           [''srv-1'']
                           (Some (Errorf ''%s, fault: %+v'' [''No valid host''] None
                                    (Some (Errorf ''server [ID=%q] reached unexpected status %q''
                                             [''srv-1'', ''ERROR''] None None))))
                           None))))
   \<and> map_option (take 3 \<circ> snd)
       (CreateMachine example_cp rollback_Executor ''machine-1'' ''user-data'' [])
     = Some [DeleteServer_call ''srv-1'', GetServer_call ''srv-1'', GetServer_call ''srv-1'']
   \<and> map_option (filter isDeleteServer \<circ> snd)
       (CreateMachine example_cp rollback_Executor ''machine-1'' ''user-data'' [])
     = Some [DeleteServer_call ''srv-1'']"
proof -
  let ?ex = rollback_Executor
  let ?server = "example_server ''srv-1'' ''BUILD''"
  let ?e = "Errorf ''%s, fault: %+v'' [''No valid host''] None
              (Some (Errorf ''server [ID=%q] reached unexpected status %q''
                       [''srv-1'', ''ERROR''] None None))"
  let ?orig = "Errorf ''error waiting for server [ID=%q] to reach target status: %w''
                 [''srv-1''] (Some ?e) None"
  obtain opts where deployed:
    "deployServer ?ex ''machine-1'' ''user-data'' [\<lparr>UUID = ''net-1'', Port = []\<rparr>] []
     = (Inr ?server, [CreateServer_call opts, FlavorIDFromName_call ''m1.large''])"
    using rollback_deployed by blast
  let ?h2 = "[CreateServer_call opts, FlavorIDFromName_call ''m1.large'']"
  have id: "srv_ID ?server = ''srv-1''" and region: "Region (Spec (Config ?ex)) = ''eu-de-1''"
    by (simp_all add: example_server_def rollback_Executor_def example_spec_def)
  have failed:
    "(waitForStatus ?ex (srv_ID ?server) [ServerStatusBuild] [ServerStatusActive] 600 ?h2
        = Some (Some ?e, GetServer_call ''srv-1'' # ?h2)
      \<and> ?orig = Errorf ''error waiting for server [ID=%q] to reach target status: %w''
                 [srv_ID ?server] (Some ?e) None)
     \<or> (\<exists>hw. waitForStatus ?ex (srv_ID ?server) [ServerStatusBuild] [ServerStatusActive] 600 ?h2
                 = Some (None, hw)
             \<and> patchServerPortsForPodNetwork ?ex (srv_ID ?server) hw
                 = (Some ?e, GetServer_call ''srv-1'' # ?h2)
             \<and> ?orig = Errorf ''failed to patch server [ID=%q] ports: %s''
                        [srv_ID ?server] None (Some ?e))"
    using rollback_waited [of ?h2] by (simp add: id)
  have pid: "EncodeProviderID ''eu-de-1'' ''srv-1''
             = EncodeProviderID (Region (Spec (Config ?ex))) (srv_ID ?server)"
    by (simp add: id region)
  from CreateMachine_rollback [OF rollback_nets deployed failed pid, of example_cp]
  obtain r h4 E where
    del: "DeleteMachine example_cp ?ex ''machine-1'' (EncodeProviderID ''eu-de-1'' ''srv-1'')
            (GetServer_call ''srv-1'' # ?h2) = Some (r, h4)"
    and cm: "CreateMachine example_cp ?ex ''machine-1'' ''user-data'' [] = Some (Inl E, h4)"
    and E: "\<forall>errIn. r = Some errIn \<longrightarrow>
              E = Errorf ''error deleting server [ID=%q] after unsuccessful creation attempt: %w. Original error: %v''
                    [srv_ID ?server] (Some errIn) (Some ?orig)
              \<and> mentions E errIn \<and> errors_Is E errIn"
    by (elim exE conjE) (rule that)
  from del have "r = Some unavailable"
    and "h4 = DeleteServer_call ''srv-1'' # GetServer_call ''srv-1'' # GetServer_call ''srv-1'' # ?h2"
    by (simp_all add: rollback_deleted)
  then show ?thesis
    using cm E by (simp add: id)
qed

text \<open>
  Claim C5 as stated fails: a server that is reported in the error state by the first
  query of the wait and is no longer known to the provider afterwards makes the create
  fail after the submission, and the rollback ends with its lookup. No delete request is
  made for the created server, and \<open>CreateMachine\<close> returns the error of the wait alone.
\<close>

theorem CreateMachine_rollback_without_delete:
  "map_option fst (CreateMachine example_cp vanishing_Executor ''machine-1'' ''user-data'' [])
   = Some (Inl (Errorf ''error waiting for server [ID=%q] to reach target status: %w''
                  [''srv-1'']
                  (Some (Errorf ''%s, fault: %+v'' [''No valid host''] None
                           (Some (Errorf ''server [ID=%q] reached unexpected status %q''
                                    [''srv-1'', ''ERROR''] None None))))
                  None))
   \<and> map_option (take 2 \<circ> snd)
       (CreateMachine example_cp vanishing_Executor ''machine-1'' ''user-data'' [])
     = Some [GetServer_call ''srv-1'', GetServer_call ''srv-1'']
   \<and> map_option (filter isDeleteServer \<circ> snd)
       (CreateMachine example_cp vanishing_Executor ''machine-1'' ''user-data'' [])
     = Some []"
proof -
  let ?ex = vanishing_Executor
  let ?e = "Errorf ''%s, fault: %+v'' [''No valid host''] None
              (Some (Errorf ''server [ID=%q] reached unexpected status %q''
                       [''srv-1'', ''ERROR''] None None))"
  have nets: "computeServerNetworks ?ex ''machine-1'' []
      = (Inr [\<lparr>UUID = ''net-1'', Port = []\<rparr>], [])"
    by (simp add: computeServerNetworks_def vanishing_Executor_def example_spec_def StringPtr_def)
  obtain opts where deployed:
    "deployServer ?ex ''machine-1'' ''user-data'' [\<lparr>UUID = ''net-1'', Port = []\<rparr>] []
     = (Inr (example_server ''srv-1'' ''BUILD''),
        [CreateServer_call opts, FlavorIDFromName_call ''m1.large''])"
    by (simp add: deployServer_def vanishing_Executor_def example_spec_def no_Compute_def
        perform_def Let_def)
  let ?h2 = "[CreateServer_call opts, FlavorIDFromName_call ''m1.large'']"
  have "waitForStatus_condition ?ex ''srv-1'' [ServerStatusBuild] [ServerStatusActive] ?h2
        = ((False, Some ?e), GetServer_call ''srv-1'' # ?h2)"
    by (simp add: waitForStatus_condition_def perform_def vanishing_Executor_def
        no_Compute_def example_server_def strSliceContains_def ServerStatusBuild_def
        ServerStatusActive_def ServerStatusError_def)
  then have waited:
    "waitForStatus ?ex ''srv-1'' [ServerStatusBuild] [ServerStatusActive] 600 ?h2
     = Some (Some ?e, GetServer_call ''srv-1'' # ?h2)"
    unfolding waitForStatus_def by (rule wait_Poll_error)
  have deleted:
    "DeleteMachine example_cp ?ex ''machine-1'' (EncodeProviderID ''eu-de-1'' ''srv-1'')
       (GetServer_call ''srv-1'' # ?h2)
     = Some (None, GetServer_call ''srv-1'' # GetServer_call ''srv-1'' # ?h2)"
    by (simp add: DeleteMachine_def EncodeProviderID_def StringPtr_def getMachineByProviderID_def
        Decode_example perform_def Let_def vanishing_Executor_def no_Compute_def notFound_def)
  have id: "srv_ID (example_server ''srv-1'' ''BUILD'') = ''srv-1''"
    and region: "Region (Spec (Config ?ex)) = ''eu-de-1''"
    by (simp_all add: example_server_def vanishing_Executor_def example_spec_def)
  have "CreateMachine example_cp ?ex ''machine-1'' ''user-data'' []
      = Some (Inl (Errorf ''error waiting for server [ID=%q] to reach target status: %w''
                     [''srv-1''] (Some ?e) None),
              GetServer_call ''srv-1'' # GetServer_call ''srv-1'' # ?h2)"
    by (simp add: CreateMachine_def nets deployed id region waited deleteOnFail_def deleted)
  then show ?thesis
    by simp
qed

subsection \<open>Pod-network discovery\<close>

lemma serverNetworks_loop_resolve:
  "serverNetworks_loop ex networks serverNetworks h =
     (case resolveNetworks ex networks h of
        (Inl err, h') \<Rightarrow> (Inl err, h')
      | (Inr ids, h') \<Rightarrow> (Inr (serverNetworks @ map (\<lambda>i. \<lparr>UUID = i, Port = []\<rparr>) ids), h'))"
proof (induction networks arbitrary: serverNetworks h)
  case Nil
  show ?case by simp
next
  case (Cons network rest)
  show ?case
    by (simp add: Cons.IH perform_def split: sum.splits prod.splits)
qed

lemma podNetworkIDs_loop_resolve:
  "podNetworkIDs_loop ex networks networkIDs h =
     (case resolveNetworks ex (filter net_PodNetwork networks) h of
        (Inl err, h') \<Rightarrow> (Inl err, h')
      | (Inr ids, h') \<Rightarrow> (Inr (networkIDs \<union> set ids), h'))"
proof (induction networks arbitrary: networkIDs h)
  case Nil
  show ?case by simp
next
  case (Cons network rest)
  show ?case
    by (simp add: Cons.IH perform_def split: sum.splits prod.splits)
qed

lemma computeServerNetworks_list:
  assumes "isEmptyString (StringPtr (NetworkID (Spec (Config ex))))"
  shows "computeServerNetworks ex machineName h =
     (case resolveNetworks ex (Networks (Spec (Config ex))) h of
        (Inl err, h') \<Rightarrow> (Inl err, h')
      | (Inr ids, h') \<Rightarrow> (Inr (map (\<lambda>i. \<lparr>UUID = i, Port = []\<rparr>) ids), h'))"
  using assms
  by (simp add: computeServerNetworks_def serverNetworks_loop_resolve split: prod.splits sum.splits)

text \<open>
  Claim C6, as amended. Pod-network discovery keeps the attached ports whose network id is
  the explicit network id when one is configured, and otherwise one of the ids resolved
  from the entries of the configured network list that are flagged as pod network. It
  fails when the server has no port at all and when no attached port is on one of these
  networks. Creation from the network list, for comparison, attaches to the ids resolved
  from all the entries of the list, flagged or not.
\<close>

theorem computePodNetworkIDs_filter:
  assumes ids: "discoveryNetworkIDs ex h = (Inr ids, h1)"
    and ports: "ListPorts (Network ex) h1 serverID = Inr serverPorts"
  shows "computePodNetworkIDs ex serverID h =
           (if serverPorts = [] then
              Inl (Errorf ''got an empty port list for server %q'' [serverID] None None)
            else if filter (\<lambda>port. port_NetworkID port \<in> set ids) serverPorts = [] then
              Inl (Errorf ''no port candidates found for pod network'' [] None None)
            else Inr (filter (\<lambda>port. port_NetworkID port \<in> set ids) serverPorts),
            ListPorts_call serverID # h1)
       \<and> (isEmptyString (StringPtr (NetworkID (Spec (Config ex)))) \<longrightarrow>
            computeServerNetworks ex machineName h =
              (case resolveNetworks ex (Networks (Spec (Config ex))) h of
                 (Inl err, h') \<Rightarrow> (Inl err, h')
               | (Inr all, h') \<Rightarrow> (Inr (map (\<lambda>i. \<lparr>UUID = i, Port = []\<rparr>) all), h')))"
proof
  show "computePodNetworkIDs ex serverID h =
           (if serverPorts = [] then
              Inl (Errorf ''got an empty port list for server %q'' [serverID] None None)
            else if filter (\<lambda>port. port_NetworkID port \<in> set ids) serverPorts = [] then
              Inl (Errorf ''no port candidates found for pod network'' [] None None)
            else Inr (filter (\<lambda>port. port_NetworkID port \<in> set ids) serverPorts),
            ListPorts_call serverID # h1)"
  proof (cases "isEmptyString (StringPtr (NetworkID (Spec (Config ex))))")
    case True
    then have "resolveNetworks ex (filter net_PodNetwork (Networks (Spec (Config ex)))) h
               = (Inr ids, h1)"
      using ids by (simp add: discoveryNetworkIDs_def)
    then show ?thesis
      using True ports
      by (simp add: computePodNetworkIDs_def podNetworkIDs_loop_resolve perform_def Let_def)
  next
    case False
    then have "ids = [NetworkID (Spec (Config ex))]" "h1 = h"
      using ids by (simp_all add: discoveryNetworkIDs_def)
    then show ?thesis
      using False ports
      by (simp add: computePodNetworkIDs_def perform_def Let_def)
  qed
  show "isEmptyString (StringPtr (NetworkID (Spec (Config ex)))) \<longrightarrow>
            computeServerNetworks ex machineName h =
              (case resolveNetworks ex (Networks (Spec (Config ex))) h of
                 (Inl err, h') \<Rightarrow> (Inl err, h')
               | (Inr all, h') \<Rightarrow> (Inr (map (\<lambda>i. \<lparr>UUID = i, Port = []\<rparr>) all), h'))"
    using computeServerNetworks_list [of ex machineName h] by blast
qed

theorem computePodNetworkIDs_filter_witness:
  "computePodNetworkIDs twoNetworks_Executor ''srv-1'' []
   = (Inr [\<lparr>port_ID = ''port-2'', port_NetworkID = ''net-2'', port_AllowedAddressPairs = []\<rparr>],
      [ListPorts_call ''srv-1'', NetworkIDFromName_call ''pods''])"
proof -
  have ids: "discoveryNetworkIDs twoNetworks_Executor [] = (Inr [''net-2''], [NetworkIDFromName_call ''pods''])"
    by (simp add: discoveryNetworkIDs_def twoNetworks_Executor_def example_spec_def StringPtr_def
        perform_def no_Network_def)
  have ports: "ListPorts (Network twoNetworks_Executor) [NetworkIDFromName_call ''pods''] ''srv-1''
    = Inr [\<lparr>port_ID = ''port-1'', port_NetworkID = ''net-1'', port_AllowedAddressPairs = []\<rparr>,
           \<lparr>port_ID = ''port-2'', port_NetworkID = ''net-2'', port_AllowedAddressPairs = []\<rparr>]"
    by (simp add: twoNetworks_Executor_def no_Network_def)
  from computePodNetworkIDs_filter [OF ids ports] show ?thesis by simp
qed

text \<open>
  Claim C6 as stated fails: with the one listed network \<open>net-1\<close> not flagged as pod network,
  creation attaches the server to \<open>net-1\<close>, the server has a port on \<open>net-1\<close>, and discovery
  still finds no candidate, because it filters by the flagged networks only.
\<close>

theorem computePodNetworkIDs_not_creation_set:
  "computeServerNetworks flagless_Executor ''machine-1'' []
     = (Inr [\<lparr>UUID = ''net-1'', Port = []\<rparr>], [])
   \<and> ListPorts (Network flagless_Executor) [] ''srv-1''
     = Inr [\<lparr>port_ID = ''port-1'', port_NetworkID = ''net-1'', port_AllowedAddressPairs = []\<rparr>]
   \<and> computePodNetworkIDs flagless_Executor ''srv-1'' []
     = (Inl (Errorf ''no port candidates found for pod network'' [] None None),
        [ListPorts_call ''srv-1''])"
  by (simp add: computeServerNetworks_def computePodNetworkIDs_def flagless_Executor_def
      example_spec_def StringPtr_def perform_def no_Network_def)

subsection \<open>The ownership test\<close>

lemma search_foldl:
  "foldl (\<lambda>(c, r) key.
            if strings_Contains key cprefix then (key, r)
            else if strings_Contains key rprefix then (c, key)
            else (c, r))
     (c0, r0) names
   = (if filter (\<lambda>key. strings_Contains key cprefix) names = [] then c0
      else last (filter (\<lambda>key. strings_Contains key cprefix) names),
      if filter (\<lambda>key. \<not> strings_Contains key cprefix \<and> strings_Contains key rprefix) names = []
      then r0
      else last (filter (\<lambda>key. \<not> strings_Contains key cprefix \<and> strings_Contains key rprefix)
                   names))"
  by (induction names arbitrary: c0 r0) auto

lemma searchTags_lastMatching:
  "searchTags cp tags =
     (lastMatching (\<lambda>key. strings_Contains key (ServerTagClusterPrefix cp)) (map fst tags),
      lastMatching (\<lambda>key. \<not> strings_Contains key (ServerTagClusterPrefix cp)
                           \<and> strings_Contains key (ServerTagRolePrefix cp)) (map fst tags))"
  unfolding searchTags_def lastMatching_def by (rule search_foldl)

lemma getMachineByProviderID_owned:
  assumes "getMachineByProviderID cp ex providerID h = (Inr server, h')"
  shows "hasOwnershipTags (searchTags cp (Tags (Spec (Config ex)))) server
       \<and> GetServer (Compute ex) h (DecodeProviderID providerID) = Inr server"
  using assms
  by (auto simp: getMachineByProviderID_def searchTags_def hasOwnershipTags_def perform_def
      Let_def split: if_splits sum.splits prod.splits)

lemma getMachineByProviderID_accepts:
  assumes "GetServer (Compute ex) h (DecodeProviderID providerID) = Inr server"
    and "\<not> isEmptyString (StringPtr (DecodeProviderID providerID))"
    and "hasOwnershipTags (searchTags cp (Tags (Spec (Config ex)))) server"
  shows "getMachineByProviderID cp ex providerID h
         = (Inr server, GetServer_call (DecodeProviderID providerID) # h)"
  using assms
  by (auto simp: getMachineByProviderID_def searchTags_def hasOwnershipTags_def perform_def
      Let_def split: if_splits sum.splits prod.splits)

lemma getMachineByName_owned:
  assumes "getMachineByName cp ex machineName h = (Inr server, h')"
  shows "hasOwnershipTags (searchTags cp (Tags (Spec (Config ex)))) server
       \<and> srv_Name server = machineName"
proof -
  obtain c r where keys: "searchTags cp (Tags (Spec (Config ex))) = (c, r)"
    by (cases "searchTags cp (Tags (Spec (Config ex)))")
  let ?P = "\<lambda>server. srv_Name server = machineName \<and> srv_Metadata server c \<noteq> None
                \<and> srv_Metadata server r \<noteq> None"
  from assms keys have "\<exists>listed. filter ?P listed \<noteq> [] \<and> server = filter ?P listed ! 0"
    by (auto simp: getMachineByName_def searchTags_def perform_def Let_def
        split: if_splits sum.splits prod.splits)
  then obtain listed where "filter ?P listed \<noteq> []" "server = filter ?P listed ! 0"
    by blast
  then have "server \<in> set (filter ?P listed)"
    using nth_mem [of 0 "filter ?P listed"] by simp
  then show ?thesis
    using keys by (simp add: hasOwnershipTags_def)
qed

lemma ListMachines_foldl_dom:
  "dom (foldl (\<lambda>result server. if P server then result(f server \<mapsto> g server) else result)
          m servers)
   = dom m \<union> f ` {server \<in> set servers. P server}"
  by (induction servers arbitrary: m) auto

lemma ListMachines_owned:
  assumes "ListMachines cp ex h = (Inr m, h')"
  shows "\<exists>servers. ListServers (Compute ex) h [] = Inr servers
          \<and> dom m = (\<lambda>server. EncodeProviderID (Region (Spec (Config ex))) (srv_ID server))
                      ` {server \<in> set servers.
                           hasOwnershipTags (searchTags cp (Tags (Spec (Config ex)))) server}"
proof -
  obtain c r where keys: "searchTags cp (Tags (Spec (Config ex))) = (c, r)"
    by (cases "searchTags cp (Tags (Spec (Config ex)))")
  from assms keys obtain servers where
    listed: "ListServers (Compute ex) h [] = Inr servers"
    and m: "m = foldl (\<lambda>result server.
                         if srv_Metadata server c \<noteq> None \<and> srv_Metadata server r \<noteq> None then
                           result(EncodeProviderID (Region (Spec (Config ex))) (srv_ID server)
                                    \<mapsto> srv_Name server)
                         else result)
                  Map.empty servers"
    by (auto simp: ListMachines_def searchTags_def perform_def Let_def
        split: if_splits sum.splits prod.splits)
  have "dom m = (\<lambda>server. EncodeProviderID (Region (Spec (Config ex))) (srv_ID server))
                  ` {server \<in> set servers. srv_Metadata server c \<noteq> None \<and> srv_Metadata server r \<noteq> None}"
    unfolding m by (simp add: ListMachines_foldl_dom)
  with listed keys show ?thesis
    by (simp add: hasOwnershipTags_def)
qed

text \<open>
  Claim C7, as amended. The cluster key is the last configured tag name that contains the
  cluster prefix, the role key the last one that contains the role prefix and not the
  cluster prefix; the names are matched by containment, anywhere in the name, and the
  tag values play no part. Lookup by provider id returns a server only if its metadata
  has both keys, and returns every server the provider finds under the decoded id whose
  metadata has both. Lookup by name returns a server only if its metadata has both keys
  (and its name is the one asked for). Enumeration returns the provider ids of exactly
  the listed servers whose metadata has both keys.
\<close>

theorem ownership_two_key_test:
  assumes "keys = searchTags cp (Tags (Spec (Config ex)))"
    and "names = map fst (Tags (Spec (Config ex)))"
  shows "keys = (lastMatching (\<lambda>key. strings_Contains key (ServerTagClusterPrefix cp)) names,
                 lastMatching (\<lambda>key. \<not> strings_Contains key (ServerTagClusterPrefix cp)
                                      \<and> strings_Contains key (ServerTagRolePrefix cp)) names)
       \<and> (\<forall>server h'. getMachineByProviderID cp ex providerID h = (Inr server, h') \<longrightarrow>
             hasOwnershipTags keys server)
       \<and> (\<forall>server. GetServer (Compute ex) h (DecodeProviderID providerID) = Inr server
                    \<and> \<not> isEmptyString (StringPtr (DecodeProviderID providerID))
                    \<and> hasOwnershipTags keys server \<longrightarrow>
             getMachineByProviderID cp ex providerID h
               = (Inr server, GetServer_call (DecodeProviderID providerID) # h))
       \<and> (\<forall>server h'. getMachineByName cp ex machineName h = (Inr server, h') \<longrightarrow>
             hasOwnershipTags keys server \<and> srv_Name server = machineName)
       \<and> (\<forall>m h'. ListMachines cp ex h = (Inr m, h') \<longrightarrow>
             (\<exists>servers. ListServers (Compute ex) h [] = Inr servers
                \<and> dom m = (\<lambda>server. EncodeProviderID (Region (Spec (Config ex))) (srv_ID server))
                            ` {server \<in> set servers. hasOwnershipTags keys server}))"
  unfolding assms
  using searchTags_lastMatching [of cp "Tags (Spec (Config ex))"]
    getMachineByProviderID_owned [of cp ex providerID h]
    getMachineByProviderID_accepts [of ex h providerID _ cp]
    getMachineByName_owned [of cp ex machineName h]
    ListMachines_owned [of cp ex h]
  by blast

theorem ownership_two_key_test_witness:
  "hasOwnershipTags (searchTags example_cp example_tags) (example_server ''srv-1'' ''ACTIVE'')
   \<and> srv_Name (example_server ''srv-1'' ''ACTIVE'') = ''machine-1''
   \<and> searchTags example_cp example_tags
       = (lastMatching (\<lambda>key. strings_Contains key ''kubernetes.io-cluster-'')
            [''kubernetes.io-cluster-shoot'', ''kubernetes.io-role-node''],
          lastMatching (\<lambda>key. \<not> strings_Contains key ''kubernetes.io-cluster-''
                               \<and> strings_Contains key ''kubernetes.io-role-'')
            [''kubernetes.io-cluster-shoot'', ''kubernetes.io-role-node''])"
proof -
  let ?ex = "listing_Executor [foreign_server, example_server ''srv-1'' ''ACTIVE'']"
  have tags: "Tags (Spec (Config ?ex)) = example_tags"
    by (simp add: listing_Executor_def example_spec_def)
  have keys: "searchTags example_cp example_tags = searchTags example_cp (Tags (Spec (Config ?ex)))"
    by (simp add: tags)
  have names: "[''kubernetes.io-cluster-shoot'', ''kubernetes.io-role-node'']
               = map fst (Tags (Spec (Config ?ex)))"
    by (simp add: tags example_tags_def)
  have found: "getMachineByName example_cp ?ex ''machine-1'' []
               = (Inr (example_server ''srv-1'' ''ACTIVE''), [ListServers_call ''machine-1''])"
  proof -
    have "searchTags example_cp (Tags (Spec (Config ?ex)))
          = (''kubernetes.io-cluster-shoot'', ''kubernetes.io-role-node'')"
      by (simp add: tags example_searchTags)
    then show ?thesis
      by (simp add: getMachineByName_def searchTags_def perform_def listing_Executor_def
          no_Compute_def foreign_server_def example_server_def example_tags_def)
  qed
  have cp: "ServerTagClusterPrefix example_cp = ''kubernetes.io-cluster-''"
    "ServerTagRolePrefix example_cp = ''kubernetes.io-role-''"
    by (simp_all add: example_cp_def)
  from ownership_two_key_test [OF keys names, of "[]" "[]" "''machine-1''"] found
  show ?thesis unfolding cp by blast
qed

text \<open>
  Claim C7 as stated fails: the tag name \<open>x-kubernetes.io-cluster-shoot\<close> does not start with
  the cluster prefix, and still it is taken as the cluster key, and the server that
  carries it is found by name.
\<close>

theorem ownership_not_by_prefix:
  "\<not> prefix (ServerTagClusterPrefix example_cp) ''x-kubernetes.io-cluster-shoot''
   \<and> searchTags example_cp (Tags (Spec (Config infix_Executor)))
       = (''x-kubernetes.io-cluster-shoot'', ''kubernetes.io-role-node'')
   \<and> getMachineByName example_cp infix_Executor ''machine-1'' []
       = (Inr \<lparr>srv_ID = ''srv-1'', srv_Name = ''machine-1'', srv_Status = ''ACTIVE'',
                srv_Metadata = [''x-kubernetes.io-cluster-shoot'' \<mapsto> ''1'',
                                ''kubernetes.io-role-node'' \<mapsto> ''1''],
                srv_Fault = []\<rparr>,
          [ListServers_call ''machine-1''])"
proof -
  have keys: "searchTags example_cp (Tags (Spec (Config infix_Executor)))
      = (''x-kubernetes.io-cluster-shoot'', ''kubernetes.io-role-node'')"
    by (simp add: searchTags_def infix_Executor_def example_spec_def example_cp_def
        strings_Contains_def sublist_Cons_right)
  have "getMachineByName example_cp infix_Executor ''machine-1'' []
       = (Inr \<lparr>srv_ID = ''srv-1'', srv_Name = ''machine-1'', srv_Status = ''ACTIVE'',
                srv_Metadata = [''x-kubernetes.io-cluster-shoot'' \<mapsto> ''1'',
                                ''kubernetes.io-role-node'' \<mapsto> ''1''],
                srv_Fault = []\<rparr>,
          [ListServers_call ''machine-1''])"
    using keys
    by (simp add: getMachineByName_def searchTags_def perform_def infix_Executor_def
        no_Compute_def)
  with keys show ?thesis
    by (simp add: example_cp_def)
qed

end
